theory Spec2Isabelle
  imports Complex_Main
begin

text \<open>
  A model of the signal-processing core of the camera module: the blink detector (both
  copies), the distance estimator (the engine's and the legacy variant), the quality
  monitor and the burst check of the camera engine. Objects are records, methods take
  the object last and return it updated, the clock (\<open>Date.now()\<close>) is an argument.
\<close>

section \<open>Numbers\<close>

text \<open>
  The TypeScript sources compute on the type \<open>number\<close>. The model uses \<^typ>\<open>real\<close>:
  exact arithmetic on finite values, without the rounding of doubles. Where the source
  can produce a non-finite value (an unguarded division by zero) the model represents the
  value explicitly (\<open>jsnum\<close> below); the one division left on \<^typ>\<open>real\<close> with a
  variable divisor, by the baseline of the blink detector, has a divisor that is proved
  positive (\<open>baseline_ok_run\<close>).
\<close>

definition js_round :: "real \<Rightarrow> real" where
  \<comment> \<open>\<open>Math.round\<close>: the nearest integer, halves towards plus infinity.\<close>
  "js_round x = of_int \<lfloor>x + 1 / 2\<rfloor>"

definition hypot :: "real \<Rightarrow> real \<Rightarrow> real" where
  \<comment> \<open>\<open>Math.hypot(a, b)\<close>\<close>
  "hypot a b = sqrt (a * a + b * b)"

definition sum_list_reduce :: "real list \<Rightarrow> real" where
  \<comment> \<open>\<open>xs.reduce((a, b) => a + b, 0)\<close>\<close>
  "sum_list_reduce xs = foldl (\<lambda>a b. a + b) 0 xs"

definition sorted_mid :: "real list \<Rightarrow> real option" where
  \<comment> \<open>\<open>sorted = [...xs].sort((a, b) => a - b); sorted[Math.floor(sorted.length / 2)]\<close>,
      the idiom every "median" of the sources uses; \<open>None\<close> is \<open>undefined\<close> (empty list).\<close>
  "sorted_mid xs =
     (let sorted = sort xs; mid = length sorted div 2
      in if mid < length sorted then Some (sorted ! mid) else None)"

section \<open>Blink detector\<close>

text \<open>
  Two copies of the detector exist: \<open>modules/camera/BlinkDetector.ts\<close> (V3) and the
  detector the engine imports as \<open>./blink/BlinkDetector\<close> (second document of
  \<open>modules/camera/quality/QualityMonitor.ts\<close>). Their \<open>smoothOpenness\<close>,
  \<open>calibrateBaseline\<close>, \<open>updateStateMachine\<close>, \<open>completeBlink\<close> and \<open>reset\<close> are the same
  code up to logging, and are modelled once; \<open>calculateMetrics\<close> differs and is modelled
  twice.
\<close>

datatype BlinkState = OPEN | CLOSING | CLOSED | OPENING

record BlinkConfig =
  earThreshold :: real
  earCloseThreshold :: real
  earOpenThreshold :: real
  incompleteThreshold :: real
  minBlinkDuration :: real
  maxBlinkDuration :: real
  debounceTime :: real
  smoothingWindowSize :: real

definition DEFAULT_CONFIG :: BlinkConfig where
  "DEFAULT_CONFIG =
     \<lparr> earThreshold = 2 / 10, earCloseThreshold = 25 / 100, earOpenThreshold = 28 / 100,
       incompleteThreshold = 30 / 100, minBlinkDuration = 80, maxBlinkDuration = 400,
       debounceTime = 120, smoothingWindowSize = 3 \<rparr>"

record BlinkEvent =
  timestamp :: real
  isComplete :: bool
  minOpenness :: real
  duration :: real

record EyeOpenness =
  eo_left :: real
  eo_right :: real
  eo_timestamp :: real

record Point =
  px :: real
  py :: real

record EyeLandmarks =
  leftEye :: "Point list"
  rightEye :: "Point list"

record BlinkDetector =
  config :: BlinkConfig
  state :: BlinkState
  blinkHistory :: "BlinkEvent list"
  opennessHistory :: "EyeOpenness list"
  smoothingWindow :: "real list"
  monitoringStartTime :: real
  baselineOpenness :: real
  currentBlinkStart :: real
  currentBlinkMinOpenness :: real
  lastBlinkTimestamp :: real
  isCalibrated :: bool
  calibrationSamples :: "real list"
  currentEAR :: real

definition newBlinkDetector :: "BlinkConfig \<Rightarrow> BlinkDetector" where
  \<comment> \<open>the constructor, with the merged configuration as argument\<close>
  "newBlinkDetector cfg =
     \<lparr> config = cfg, state = OPEN, blinkHistory = [], opennessHistory = [],
       smoothingWindow = [], monitoringStartTime = 0, baselineOpenness = 35 / 100,
       currentBlinkStart = 0, currentBlinkMinOpenness = 1, lastBlinkTimestamp = 0,
       isCalibrated = False, calibrationSamples = [], currentEAR = 0 \<rparr>"

definition reset :: "real \<Rightarrow> BlinkDetector \<Rightarrow> BlinkDetector" where
  \<comment> \<open>\<open>reset()\<close>; the first argument is the reading of \<open>Date.now()\<close>\<close>
  "reset now d =
     d\<lparr> state := OPEN, blinkHistory := [], opennessHistory := [], smoothingWindow := [],
        currentBlinkStart := 0, currentBlinkMinOpenness := 1, lastBlinkTimestamp := 0,
        isCalibrated := False, calibrationSamples := [], monitoringStartTime := now \<rparr>"

definition calculateEAR :: "Point list \<Rightarrow> real" where
  "calculateEAR eye =
     (if length eye < 6 then 0
      else
        let v1 = hypot (px (eye ! 1) - px (eye ! 5)) (py (eye ! 1) - py (eye ! 5));
            v2 = hypot (px (eye ! 2) - px (eye ! 4)) (py (eye ! 2) - py (eye ! 4));
            h = hypot (px (eye ! 0) - px (eye ! 3)) (py (eye ! 0) - py (eye ! 3))
        in if h = 0 then 0 else (v1 + v2) / (2 * h))"

definition smoothOpenness :: "real \<Rightarrow> BlinkDetector \<Rightarrow> real option \<times> BlinkDetector" where
  \<comment> \<open>push, drop the oldest entry when the window is over its size, return the middle of
      the sorted window (\<open>undefined\<close>, here \<open>None\<close>, when the window is left empty)\<close>
  "smoothOpenness openness d =
     (let w = smoothingWindow d @ [openness];
          w' = (if real (length w) > smoothingWindowSize (config d) then tl w else w)
      in (sorted_mid w', d\<lparr>smoothingWindow := w'\<rparr>))"

definition calibrateBaseline :: "real \<Rightarrow> BlinkDetector \<Rightarrow> BlinkDetector" where
  "calibrateBaseline openness d =
     (let samples = (if openness > 1 / 2 then calibrationSamples d @ [openness]
                     else calibrationSamples d);
          d1 = d\<lparr>calibrationSamples := samples\<rparr>
      in if length samples \<ge> 30
         then (case sorted_mid samples of
                 Some m \<Rightarrow> d1\<lparr>baselineOpenness := m, isCalibrated := True\<rparr>
               | None \<Rightarrow> d1)
         else d1)"

definition completeBlink :: "real \<Rightarrow> BlinkDetector \<Rightarrow> BlinkDetector" where
  "completeBlink ts d =
     (let dur = ts - currentBlinkStart d in
      if dur < minBlinkDuration (config d) \<or> dur > maxBlinkDuration (config d) then d
      else if ts - lastBlinkTimestamp d < debounceTime (config d) then d
      else
        let complete = (currentBlinkMinOpenness d / baselineOpenness d
                          \<le> incompleteThreshold (config d));
            blinkEvent = \<lparr> timestamp = ts, isComplete = complete,
                           minOpenness = currentBlinkMinOpenness d, duration = dur \<rparr>;
            sixtySecondsAgo = ts - 60000
        in d\<lparr> blinkHistory :=
                 filter (\<lambda>b. timestamp b > sixtySecondsAgo) (blinkHistory d @ [blinkEvent]),
               lastBlinkTimestamp := ts \<rparr>)"

definition trackMin :: "real \<Rightarrow> BlinkDetector \<Rightarrow> BlinkDetector" where
  \<comment> \<open>\<open>if (openness < this.currentBlinkMinOpenness) this.currentBlinkMinOpenness = openness\<close>\<close>
  "trackMin openness d =
     (if openness < currentBlinkMinOpenness d then d\<lparr>currentBlinkMinOpenness := openness\<rparr>
      else d)"

definition updateStateMachine :: "real \<Rightarrow> real \<Rightarrow> BlinkDetector \<Rightarrow> BlinkDetector" where
  "updateStateMachine openness ts d =
     (let earValue = openness * (35 / 100) in
      case state d of
        OPEN \<Rightarrow>
          if earValue < earCloseThreshold (config d)
          then d\<lparr> state := CLOSING, currentBlinkStart := ts,
                  currentBlinkMinOpenness := openness \<rparr>
          else d
      | CLOSING \<Rightarrow>
         (let d1 = trackMin openness d;
              d2 = (if earValue < earThreshold (config d) then d1\<lparr>state := CLOSED\<rparr> else d1)
          in if earValue > earOpenThreshold (config d) then d2\<lparr>state := OPEN\<rparr> else d2)
      | CLOSED \<Rightarrow>
         (let d1 = trackMin openness d
          in if earValue \<ge> earThreshold (config d) then d1\<lparr>state := OPENING\<rparr> else d1)
      | OPENING \<Rightarrow>
         (let d1 = trackMin openness d
          in if earValue \<ge> earOpenThreshold (config d)
             then (completeBlink ts d1)\<lparr>state := OPEN\<rparr>
             else d1))"

definition processFrame ::
  "EyeLandmarks option \<Rightarrow> real \<Rightarrow> BlinkDetector \<Rightarrow> EyeOpenness option \<times> BlinkDetector" where
  \<comment> \<open>A window left empty gives \<open>undefined\<close> as smoothed openness: every comparison of
      \<open>calibrateBaseline\<close> and \<open>updateStateMachine\<close> is then false and neither changes
      anything.\<close>
  "processFrame eyeLandmarks ts d =
     (case eyeLandmarks of
        None \<Rightarrow> (None, d)
      | Some lm \<Rightarrow>
         (let leftEAR = calculateEAR (leftEye lm);
              rightEAR = calculateEAR (rightEye lm);
              rawOpenness = (leftEAR + rightEAR) / 2;
              normalizedOpenness = min 1 (rawOpenness / (35 / 100));
              (smoothed, d1) = smoothOpenness normalizedOpenness d;
              d2 = d1\<lparr>currentEAR := rawOpenness\<rparr>;
              eyeOpenness = \<lparr> eo_left = leftEAR / (35 / 100), eo_right = rightEAR / (35 / 100),
                              eo_timestamp = ts \<rparr>;
              sixtySecondsAgo = ts - 60000;
              d3 = d2\<lparr> opennessHistory :=
                         filter (\<lambda>h. eo_timestamp h > sixtySecondsAgo)
                           (opennessHistory d2 @ [eyeOpenness]) \<rparr>
          in (case smoothed of
                None \<Rightarrow> (Some eyeOpenness, d3)
              | Some s \<Rightarrow>
                  (let d4 = (if \<not> isCalibrated d3 then calibrateBaseline s d3 else d3)
                   in (Some eyeOpenness, updateStateMachine s ts d4)))))"

datatype BlinkCall = Frame "EyeLandmarks option" real | Reset real

fun call :: "BlinkCall \<Rightarrow> BlinkDetector \<Rightarrow> BlinkDetector" where
  "call (Frame lm ts) d = snd (processFrame lm ts d)"
| "call (Reset now) d = reset now d"

definition run :: "BlinkCall list \<Rightarrow> BlinkDetector \<Rightarrow> BlinkDetector" where
  \<comment> \<open>the calls a client makes on one detector, in order\<close>
  "run cs d = fold call cs d"

record BlinkMetrics =
  blinkCount :: nat
  blinkRate :: real
  incompleteBlinkCount :: nat
  incompleteBlinkRatio :: real
  confidence :: real

definition zeroMetrics :: BlinkMetrics where
  "zeroMetrics =
     \<lparr> blinkCount = 0, blinkRate = 0, incompleteBlinkCount = 0, incompleteBlinkRatio = 0,
       confidence = 0 \<rparr>"

definition calculateMetrics :: "real \<Rightarrow> real \<Rightarrow> BlinkDetector \<Rightarrow> BlinkMetrics" where
  \<comment> \<open>\<open>modules/camera/BlinkDetector.ts\<close>\<close>
  "calculateMetrics durationSeconds avgFps d =
     (if length (blinkHistory d) = 0 then zeroMetrics
      else
        let count = length (blinkHistory d);
            incompleteCount = length (filter (\<lambda>b. \<not> isComplete b) (blinkHistory d));
            minutes = durationSeconds / 60;
            rate = (if minutes > 0 then real count / minutes else 0);
            ratio = (if count > 0 then real incompleteCount / real count else 0);
            c0 = 1;
            c1 = (if avgFps < 20 then c0 * (7 / 10)
                  else if avgFps < 24 then c0 * (85 / 100) else c0);
            c2 = (if \<not> isCalibrated d then c1 * (1 / 2) else c1)
        in \<lparr> blinkCount = count, blinkRate = js_round (rate * 10) / 10,
             incompleteBlinkCount = incompleteCount,
             incompleteBlinkRatio = js_round (ratio * 100) / 100,
             confidence = js_round (c2 * 100) / 100 \<rparr>)"

definition calculateMetrics_engine :: "real \<Rightarrow> real \<Rightarrow> BlinkDetector \<Rightarrow> BlinkMetrics" where
  \<comment> \<open>\<open>calculateMetrics\<close> of the engine's detector (\<open>./blink/BlinkDetector\<close>)\<close>
  "calculateMetrics_engine durationSeconds avgFps d =
     (if length (blinkHistory d) = 0 then zeroMetrics
      else
        let count = length (blinkHistory d);
            incompleteCount = length (filter (\<lambda>b. \<not> isComplete b) (blinkHistory d));
            minutes = durationSeconds / 60;
            rate = (if minutes > 0 then real count / minutes else 0);
            ratio = (if count > 0 then real incompleteCount / real count else 0);
            c0 = 1;
            c1 = (if avgFps < 20 then c0 * (7 / 10)
                  else if avgFps < 24 then c0 * (85 / 100) else c0);
            c2 = (if \<not> isCalibrated d then c1 * (1 / 2) else c1);
            c3 = (if avgFps < 30 then c2 * (8 / 10) else c2)
        in \<lparr> blinkCount = count, blinkRate = js_round (rate * 10) / 10,
             incompleteBlinkCount = incompleteCount,
             incompleteBlinkRatio = js_round (ratio * 100) / 100,
             confidence = js_round (c3 * 100) / 100 \<rparr>)"

subsection \<open>Invariants of the blink history\<close>

definition durations_ok :: "BlinkDetector \<Rightarrow> bool" where
  \<comment> \<open>every recorded event has a duration inside the configured bounds\<close>
  "durations_ok d =
     list_all (\<lambda>e. minBlinkDuration (config d) \<le> duration e
                  \<and> duration e \<le> maxBlinkDuration (config d)) (blinkHistory d)"

definition gaps_ok :: "BlinkDetector \<Rightarrow> bool" where
  \<comment> \<open>recorded events are at least the debounce time apart, none is later than the last
      accepted blink, and the first one is at least the debounce time after time 0, the
      initial value of \<open>lastBlinkTimestamp\<close>\<close>
  "gaps_ok d =
     (list_all (\<lambda>e. debounceTime (config d) \<le> timestamp e
                   \<and> timestamp e \<le> lastBlinkTimestamp d) (blinkHistory d)
      \<and> sorted_wrt (\<lambda>a b. debounceTime (config d) \<le> timestamp b - timestamp a)
            (blinkHistory d)
      \<and> 0 \<le> lastBlinkTimestamp d)"

definition baseline_ok :: "BlinkDetector \<Rightarrow> bool" where
  \<comment> \<open>the baseline is positive and only open-eye samples are buffered\<close>
  "baseline_ok d = (0 < baselineOpenness d \<and> list_all (\<lambda>x. 1 / 2 < x) (calibrationSamples d))"

subsection \<open>A concrete trace\<close>

definition eyeWithEAR :: "real \<Rightarrow> Point list" where
  \<comment> \<open>six contour points whose eye aspect ratio is \<open>a\<close> (for \<open>a \<ge> 0\<close>)\<close>
  "eyeWithEAR a =
     [\<lparr>px = 0, py = 0\<rparr>, \<lparr>px = 0, py = a\<rparr>, \<lparr>px = 0, py = a\<rparr>,
      \<lparr>px = 1, py = 0\<rparr>, \<lparr>px = 0, py = 0\<rparr>, \<lparr>px = 0, py = 0\<rparr>]"

definition frameWithEAR :: "real \<Rightarrow> real \<Rightarrow> BlinkCall" where
  "frameWithEAR a ts = Frame (Some \<lparr>leftEye = eyeWithEAR a, rightEye = eyeWithEAR a\<rparr>) ts"

definition blinkTrace :: "BlinkCall list" where
  \<comment> \<open>eyes open, closed for three frames, open again\<close>
  "blinkTrace =
     [frameWithEAR (35 / 100) 1000, frameWithEAR (35 / 100) 1033,
      frameWithEAR (35 / 1000) 1066, frameWithEAR (35 / 1000) 1100,
      frameWithEAR (35 / 1000) 1133, frameWithEAR (35 / 100) 1166,
      frameWithEAR (35 / 100) 1200, frameWithEAR (35 / 100) 1233]"

definition oneBlink :: BlinkDetector where
  \<comment> \<open>the detector after \<open>blinkTrace\<close>\<close>
  "oneBlink = run blinkTrace (newBlinkDetector DEFAULT_CONFIG)"

section \<open>Non-finite numbers\<close>

text \<open>
  A division by zero gives \<open>Infinity\<close>, \<open>-Infinity\<close> or \<open>NaN\<close> in the source. Where a
  divisor can be zero without a guard (the face width of the pose estimate, the pixel
  distance of the engine's distance estimate) the result and everything computed from it
  is a \<open>jsnum\<close>. Signed zeros are not modelled: a zero divisor is \<open>+0\<close>, which is the zero
  that \<open>Math.abs\<close>, \<open>Math.hypot\<close> and a product of non-negative numbers return.
\<close>

datatype jsnum = Fin real | PosInf | NegInf | NaN

fun js_add :: "jsnum \<Rightarrow> jsnum \<Rightarrow> jsnum" where
  "js_add (Fin a) (Fin b) = Fin (a + b)"
| "js_add NaN y = NaN"
| "js_add x NaN = NaN"
| "js_add PosInf NegInf = NaN"
| "js_add NegInf PosInf = NaN"
| "js_add PosInf y = PosInf"
| "js_add x PosInf = PosInf"
| "js_add NegInf y = NegInf"
| "js_add x NegInf = NegInf"

definition js_scale :: "real \<Rightarrow> jsnum \<Rightarrow> jsnum" where
  \<comment> \<open>the product \<open>c * x\<close> of a finite number and a \<open>jsnum\<close>\<close>
  "js_scale c x =
     (case x of
        Fin a \<Rightarrow> Fin (c * a)
      | NaN \<Rightarrow> NaN
      | PosInf \<Rightarrow> (if c > 0 then PosInf else if c < 0 then NegInf else NaN)
      | NegInf \<Rightarrow> (if c > 0 then NegInf else if c < 0 then PosInf else NaN))"

definition js_div :: "real \<Rightarrow> real \<Rightarrow> jsnum" where
  \<comment> \<open>the quotient \<open>a / b\<close> of two finite numbers\<close>
  "js_div a b =
     (if b \<noteq> 0 then Fin (a / b)
      else if a > 0 then PosInf else if a < 0 then NegInf else NaN)"

definition js_div_by :: "jsnum \<Rightarrow> real \<Rightarrow> jsnum" where
  \<comment> \<open>the quotient \<open>x / c\<close> of a \<open>jsnum\<close> and a positive constant\<close>
  "js_div_by x c = js_scale (1 / c) x"

fun js_lt :: "jsnum \<Rightarrow> jsnum \<Rightarrow> bool" where
  \<comment> \<open>\<open>x < y\<close>: false as soon as one side is \<open>NaN\<close>\<close>
  "js_lt (Fin a) (Fin b) = (a < b)"
| "js_lt NaN y = False"
| "js_lt x NaN = False"
| "js_lt x NegInf = False"
| "js_lt NegInf y = True"
| "js_lt PosInf y = False"
| "js_lt x PosInf = True"

definition js_gt :: "jsnum \<Rightarrow> jsnum \<Rightarrow> bool" where
  "js_gt x y = js_lt y x"

fun js_abs :: "jsnum \<Rightarrow> jsnum" where
  "js_abs (Fin a) = Fin \<bar>a\<bar>"
| "js_abs PosInf = PosInf"
| "js_abs NegInf = PosInf"
| "js_abs NaN = NaN"

fun js_round_num :: "jsnum \<Rightarrow> jsnum" where
  \<comment> \<open>\<open>Math.round\<close> on a \<open>jsnum\<close>\<close>
  "js_round_num (Fin a) = Fin (js_round a)"
| "js_round_num x = x"

fun js_insort :: "jsnum \<Rightarrow> jsnum list \<Rightarrow> jsnum list" where
  "js_insort x [] = [x]"
| "js_insort x (y # ys) = (if js_lt y x then y # js_insort x ys else x # y # ys)"

definition js_sort :: "jsnum list \<Rightarrow> jsnum list" where
  \<comment> \<open>\<open>xs.sort((a, b) => a - b)\<close> on a list without \<open>NaN\<close>: ascending, infinities at the
      ends (with a \<open>NaN\<close> the comparator is inconsistent and the order is up to the
      implementation)\<close>
  "js_sort xs = foldr js_insort xs []"

section \<open>Distance estimator of the engine\<close>

text \<open>\<open>modules/camera/distance/DistanceEstimator.ts\<close>\<close>

datatype Bucket = NEAR | OK | FAR | UNKNOWN

record DistanceDebug =
  dbg_iodPx :: real
  dbg_iodNorm :: real
  dbg_k :: real
  dbg_rawCm :: jsnum
  dbg_flags :: "string list"

record DistanceResult =
  estCm :: jsnum
  distConfidence :: real
  bucket :: Bucket
  debug :: DistanceDebug

definition DEFAULT_TARGET_CM :: real where
  "DEFAULT_TARGET_CM = 45"

definition ALPHA :: real where
  "ALPHA = 2 / 10"

definition CALIBRATION_DURATION_MS :: real where
  "CALIBRATION_DURATION_MS = 10000"

record DistanceEstimator =
  calibrationK :: "real option"
  lastSmoothedCm :: "jsnum option"
  iodSamples :: "real list"            \<comment> \<open>the field \<open>calibrationSamples\<close>\<close>
  isCalibrating :: bool
  calibrationStartTime :: real
  storage :: "real option"             \<comment> \<open>the number kept in \<open>localStorage\<close> under
                                           \<open>STORAGE_KEY\<close>, \<open>None\<close> when there is no item\<close>

definition loadCalibration :: "DistanceEstimator \<Rightarrow> DistanceEstimator" where
  "loadCalibration e =
     (case storage e of
        Some val \<Rightarrow> if val > 0 then e\<lparr>calibrationK := Some val\<rparr> else e
      | None \<Rightarrow> e)"

definition newDistanceEstimator :: "real option \<Rightarrow> DistanceEstimator" where
  \<comment> \<open>the constructor; the argument is the content of the storage\<close>
  "newDistanceEstimator stored =
     loadCalibration
       \<lparr> calibrationK = None, lastSmoothedCm = None, iodSamples = [], isCalibrating = False,
         calibrationStartTime = 0, storage = stored \<rparr>"

definition resetCalibration :: "DistanceEstimator \<Rightarrow> DistanceEstimator" where
  "resetCalibration e = e\<lparr>calibrationK := None, storage := None, lastSmoothedCm := None\<rparr>"

definition startCalibration :: "real \<Rightarrow> DistanceEstimator \<Rightarrow> DistanceEstimator" where
  \<comment> \<open>the first argument is the reading of \<open>Date.now()\<close>\<close>
  "startCalibration now e =
     e\<lparr>isCalibrating := True, iodSamples := [], calibrationStartTime := now\<rparr>"

definition finalizeCalibration :: "DistanceEstimator \<Rightarrow> DistanceEstimator" where
  "finalizeCalibration e =
     (let e1 = e\<lparr>isCalibrating := False\<rparr> in
      if length (iodSamples e1) < 10 then e1
      else (case sorted_mid (iodSamples e1) of
              Some medianIodPx \<Rightarrow>
                e1\<lparr> calibrationK := Some (DEFAULT_TARGET_CM * medianIodPx),
                    storage := Some (DEFAULT_TARGET_CM * medianIodPx) \<rparr>
            | None \<Rightarrow> e1))"

definition processCalibrationFrame ::
  "real \<Rightarrow> real \<Rightarrow> bool \<Rightarrow> DistanceEstimator \<Rightarrow> DistanceEstimator" where
  \<comment> \<open>the first argument is the reading of \<open>Date.now()\<close>\<close>
  "processCalibrationFrame now iodPx isStable e =
     (if \<not> isCalibrating e then e
      else if now - calibrationStartTime e > CALIBRATION_DURATION_MS then finalizeCalibration e
      else if iodPx > 0 \<and> isStable then e\<lparr>iodSamples := iodSamples e @ [iodPx]\<rparr>
      else e)"

definition isCalibratedD :: "DistanceEstimator \<Rightarrow> bool" where
  \<comment> \<open>\<open>isCalibrated()\<close> of the distance estimator\<close>
  "isCalibratedD e = (calibrationK e \<noteq> None)"

definition truthyK :: "real option \<Rightarrow> real option" where
  \<comment> \<open>\<open>this.calibrationK\<close> as a condition: \<open>null\<close> and \<open>0\<close> are falsy\<close>
  "truthyK kopt = (case kopt of Some kv \<Rightarrow> if kv = 0 then None else Some kv | None \<Rightarrow> None)"

definition createUnknownResult :: "string list \<Rightarrow> DistanceEstimator \<Rightarrow> DistanceResult" where
  "createUnknownResult fl e =
     \<lparr> estCm = Fin 0, distConfidence = 0, bucket = UNKNOWN,
       debug = \<lparr> dbg_iodPx = 0, dbg_iodNorm = 0,
                 dbg_k = (case truthyK (calibrationK e) of Some kv \<Rightarrow> kv | None \<Rightarrow> 0),
                 dbg_rawCm = Fin 0, dbg_flags = fl \<rparr> \<rparr>"

definition estimate ::
  "real \<Rightarrow> Point list option \<Rightarrow> DistanceEstimator \<Rightarrow> DistanceResult \<times> DistanceEstimator" where
  "estimate videoWidth landmarks e =
     (case landmarks of
        None \<Rightarrow> (createUnknownResult [''NO_LANDMARKS''] e, e)
      | Some lms \<Rightarrow>
          if length lms < 264 then (createUnknownResult [''NO_LANDMARKS''] e, e)
          else
            (let left = lms ! 33;
                 right = lms ! 263;
                 iodNorm = hypot (px right - px left) (py right - py left);
                 iodPx = iodNorm * videoWidth;
                 effectiveK = (case truthyK (calibrationK e) of Some kv \<Rightarrow> kv | None \<Rightarrow> 8500);
                 flags0 = (if truthyK (calibrationK e) = None then [''NOT_CALIBRATED''] else []);
                 rawCm = js_div effectiveK iodPx;
                 smoothedCm = (case lastSmoothedCm e of
                                 None \<Rightarrow> rawCm
                               | Some l \<Rightarrow> js_add (js_scale ALPHA rawCm) (js_scale (1 - ALPHA) l));
                 outOfRange = (js_lt smoothedCm (Fin 15) \<or> js_gt smoothedCm (Fin 120));
                 conf = (if outOfRange then 3 / 10 else 1);
                 flags1 = (if outOfRange then flags0 @ [''OUT_OF_RANGE''] else flags0);
                 bucket0 = (if js_lt smoothedCm (Fin 30) then NEAR
                            else if js_gt smoothedCm (Fin 60) then FAR else OK);
                 bucket1 = (if conf < 1 / 2 then UNKNOWN else bucket0)
             in (\<lparr> estCm = js_div_by (js_round_num (js_scale 10 smoothedCm)) 10,
                   distConfidence = conf, bucket = bucket1,
                   debug = \<lparr> dbg_iodPx = iodPx, dbg_iodNorm = iodNorm, dbg_k = effectiveK,
                             dbg_rawCm = rawCm, dbg_flags = flags1 \<rparr> \<rparr>,
                 e\<lparr>lastSmoothedCm := Some smoothedCm\<rparr>)))"

fun estimates ::
  "(real \<times> Point list option) list \<Rightarrow> DistanceEstimator
     \<Rightarrow> DistanceResult list \<times> DistanceEstimator" where
  \<comment> \<open>\<open>estimate\<close> on consecutive frames (video width, landmarks), results in order\<close>
  "estimates [] e = ([], e)"
| "estimates ((w, lms) # fs) e =
     (let (r, e1) = estimate w lms e; (rs, e2) = estimates fs e1 in (r # rs, e2))"

fun smoothedValues ::
  "(real \<times> Point list option) list \<Rightarrow> DistanceEstimator \<Rightarrow> jsnum option list" where
  \<comment> \<open>the value of \<open>lastSmoothedCm\<close> after each of the frames\<close>
  "smoothedValues [] e = []"
| "smoothedValues ((w, lms) # fs) e =
     (let e1 = snd (estimate w lms e) in lastSmoothedCm e1 # smoothedValues fs e1)"

definition usableFrame :: "real \<times> Point list option \<Rightarrow> bool" where
  \<comment> \<open>the frames that pass the guard \<open>!landmarks || landmarks.length < 264\<close>\<close>
  "usableFrame f = (case snd f of None \<Rightarrow> False | Some lms \<Rightarrow> 264 \<le> length lms)"

definition rawValues ::
  "(real \<times> Point list option) list \<Rightarrow> DistanceEstimator \<Rightarrow> jsnum list" where
  \<comment> \<open>the \<open>rawCm\<close> of the results of consecutive frames\<close>
  "rawValues fs e = map (dbg_rawCm \<circ> debug) (fst (estimates fs e))"

definition calibrateWith :: "real \<Rightarrow> real list \<Rightarrow> DistanceEstimator \<Rightarrow> DistanceEstimator" where
  \<comment> \<open>a calibration as the engine drives it: \<open>startCalibration\<close>, one
      \<open>processCalibrationFrame\<close> per pixel distance (all within the sampling window, pose
      stable), \<open>finalizeCalibration\<close>\<close>
  "calibrateWith now iods e =
     finalizeCalibration
       (fold (\<lambda>iodPx. processCalibrationFrame now iodPx True) iods (startCalibration now e))"

section \<open>Distance estimator, legacy variant\<close>

text \<open>\<open>modules/camera/DistanceEstimator.ts\<close>\<close>

record Calibration =
  cal_k :: real
  cal_targetCm :: real
  cal_isNormalized :: bool
  cal_iodMedian :: "real option"
  cal_timestamp :: "real option"

record LegacyEstimator =
  calibration :: Calibration
  legacySamples :: "real list"         \<comment> \<open>the field \<open>calibrationSamples\<close>\<close>
  cmHistory :: "real list"

definition newLegacyEstimator :: LegacyEstimator where
  "newLegacyEstimator =
     \<lparr> calibration = \<lparr> cal_k = 5, cal_targetCm = 50, cal_isNormalized = True,
                       cal_iodMedian = None, cal_timestamp = None \<rparr>,
       legacySamples = [], cmHistory = [] \<rparr>"

definition addCalibrationSample :: "real \<Rightarrow> LegacyEstimator \<Rightarrow> LegacyEstimator" where
  "addCalibrationSample iod e =
     (if iod > 0 then e\<lparr>legacySamples := legacySamples e @ [iod]\<rparr> else e)"

definition finalizeCalibrationLegacy ::
  "real \<Rightarrow> real \<Rightarrow> LegacyEstimator \<Rightarrow> bool \<times> LegacyEstimator" where
  \<comment> \<open>\<open>finalizeCalibration(targetCm)\<close>; the second argument is the reading of \<open>Date.now()\<close>\<close>
  "finalizeCalibrationLegacy targetCm now e =
     (if length (legacySamples e) < 5 then (False, e)
      else (case sorted_mid (legacySamples e) of
              Some medianIOD \<Rightarrow>
                (True,
                 e\<lparr> calibration :=
                       \<lparr> cal_k = targetCm * medianIOD, cal_targetCm = targetCm,
                         cal_isNormalized = True, cal_iodMedian = Some medianIOD,
                         cal_timestamp = Some now \<rparr>,
                    legacySamples := [] \<rparr>)
            | None \<Rightarrow> (False, e)))"

definition classifyBucket :: "real \<Rightarrow> Bucket" where
  "classifyBucket cm = (if cm < 40 then NEAR else if cm > 75 then FAR else OK)"

definition smoothValue :: "real \<Rightarrow> LegacyEstimator \<Rightarrow> real \<times> LegacyEstimator" where
  "smoothValue val e =
     (let h = cmHistory e @ [val];
          h' = (if length h > 5 then tl h else h)
      in (sum_list_reduce h' / real (length h'), e\<lparr>cmHistory := h'\<rparr>))"

record LegacyResult =
  estimatedDistanceCm :: real
  legacyBucket :: Bucket
  legacyConfidence :: real

definition legacyUnknown :: LegacyResult where
  "legacyUnknown = \<lparr> estimatedDistanceCm = 0, legacyBucket = UNKNOWN, legacyConfidence = 0 \<rparr>"

definition estimateDistance ::
  "Point list option \<Rightarrow> LegacyEstimator \<Rightarrow> LegacyResult \<times> LegacyEstimator" where
  "estimateDistance landmarks e =
     (case landmarks of
        None \<Rightarrow> (legacyUnknown, e)
      | Some lms \<Rightarrow>
          if length lms < 478 then (legacyUnknown, e)
          else
            (let leftInner = lms ! 33;
                 rightInner = lms ! 263;
                 dx = px rightInner - px leftInner;
                 dy = py rightInner - py leftInner;
                 iodNorm = sqrt (dx * dx + dy * dy)
             in if iodNorm = 0 then (legacyUnknown, e)
                else
                  (let kv = (if cal_isNormalized (calibration e) then cal_k (calibration e)
                             else 5);
                       (estimatedCm, e1) = smoothValue (kv / iodNorm) e
                   in (\<lparr> estimatedDistanceCm = estimatedCm,
                         legacyBucket = classifyBucket estimatedCm,
                         legacyConfidence = 8 / 10 \<rparr>, e1))))"

section \<open>Landmark helpers\<close>

text \<open>
  \<open>extractEyeLandmarks\<close> and \<open>calculatePoseAngles\<close> of the landmark provider (second
  document of \<open>modules/camera/events.ts\<close>). A landmark result is \<open>null\<close> or an object whose
  \<open>faceLandmarks\<close> may be missing; a face is a list of points. Reading a coordinate of a
  landmark that the list does not have throws a \<open>TypeError\<close>.
\<close>

datatype error = TypeError

record FaceLandmarkerResult =
  faceLandmarks :: "Point list list option"

record PoseAngles =
  yaw :: jsnum
  pitch :: real
  roll :: real

definition noFace :: "FaceLandmarkerResult option \<Rightarrow> bool" where
  \<comment> \<open>\<open>!landmarkResult || !landmarkResult.faceLandmarks ||
      landmarkResult.faceLandmarks.length === 0\<close>\<close>
  "noFace landmarkResult =
     (case landmarkResult of
        None \<Rightarrow> True
      | Some r \<Rightarrow> (case faceLandmarks r of None \<Rightarrow> True | Some faces \<Rightarrow> length faces = 0))"

definition landmark_at :: "Point list \<Rightarrow> nat \<Rightarrow> Point option" where
  \<comment> \<open>\<open>landmarks[i]\<close>, \<open>None\<close> for \<open>undefined\<close>\<close>
  "landmark_at lms i = (if i < length lms then Some (lms ! i) else None)"

definition extractEyeLandmarks ::
  "Point list list \<Rightarrow> nat \<Rightarrow> (Point option list \<times> Point option list)" where
  \<comment> \<open>for a result with at least one face; the pair is \<open>{ leftEye, rightEye }\<close>\<close>
  "extractEyeLandmarks faces faceIndex =
     (let landmarks = faces ! faceIndex
      in (map (landmark_at landmarks) [33, 160, 158, 133, 153, 144],
          map (landmark_at landmarks) [362, 385, 387, 263, 373, 380]))"

definition calculatePoseAngles :: "Point list list \<Rightarrow> nat \<Rightarrow> error + PoseAngles" where
  \<comment> \<open>for a result with at least one face\<close>
  "calculatePoseAngles faces faceIndex =
     (let landmarks = faces ! faceIndex in
      case (landmark_at landmarks 1, landmark_at landmarks 234, landmark_at landmarks 454) of
        (Some noseTip, Some leftCheek, Some rightCheek) \<Rightarrow>
          (let faceWidth = \<bar>px rightCheek - px leftCheek\<bar>;
               noseCenterOffset =
                 js_div (px noseTip - (px leftCheek + px rightCheek) / 2) faceWidth
           in Inr \<lparr> yaw = js_scale 60 noseCenterOffset, pitch = 0, roll = 0 \<rparr>)
      | _ \<Rightarrow> Inl TypeError)"

section \<open>Quality monitor\<close>

text \<open>\<open>modules/camera/quality/QualityMonitor.ts\<close>, first document\<close>

datatype QualityFlag =
  FACE_NOT_FOUND | LOW_LIGHT | LOW_FPS | POSE_UNSTABLE | EYE_OCCLUDED
  | GLASSES_GLARE_SUSPECTED | MULTI_FACE_DETECTED | MODEL_WARMING_UP

record QualityMonitorConfig =
  lowLightThreshold :: real
  lowFpsThreshold :: real
  poseYawThreshold :: real
  posePitchThreshold :: real
  poseRollThreshold :: real
  warmupDuration :: real

definition DEFAULT_QUALITY_CONFIG :: QualityMonitorConfig where
  \<comment> \<open>\<open>DEFAULT_CONFIG\<close> of the quality monitor\<close>
  "DEFAULT_QUALITY_CONFIG =
     \<lparr> lowLightThreshold = 50, lowFpsThreshold = 20, poseYawThreshold = 25,
       posePitchThreshold = 20, poseRollThreshold = 15, warmupDuration = 2500 \<rparr>"

record QualityMonitor =
  qconfig :: QualityMonitorConfig
  startTime :: real
  fpsHistory :: "real list"
  lastFrameTime :: real

record QualityDetails =
  fps :: "real option"
  faceCount :: "nat option"
  brightness :: "real option"
  poseAngles :: "PoseAngles option"

record QualityFlags =
  flags :: "QualityFlag list"
  qualityConfidence :: real
  details :: QualityDetails

record VideoElement =
  videoWidth :: real
  videoHeight :: real
  centerCrop :: "(real \<times> real \<times> real) list option"
    \<comment> \<open>the red, green and blue values of the 100 x 100 pixels that \<open>drawImage\<close> and
        \<open>getImageData\<close> deliver for the centre of the frame; \<open>None\<close> when no 2d context is
        available or drawing throws\<close>

definition newQualityMonitor :: "QualityMonitorConfig \<Rightarrow> real \<Rightarrow> QualityMonitor" where
  \<comment> \<open>the constructor; the second argument is the reading of \<open>Date.now()\<close>\<close>
  "newQualityMonitor cfg now =
     \<lparr> qconfig = cfg, startTime = now, fpsHistory = [], lastFrameTime = 0 \<rparr>"

definition calculateFPS :: "real \<Rightarrow> QualityMonitor \<Rightarrow> real \<times> QualityMonitor" where
  "calculateFPS ts m =
     (let h = (if lastFrameTime m > 0 \<and> ts - lastFrameTime m > 0
               then (let h1 = fpsHistory m @ [1000 / (ts - lastFrameTime m)]
                     in if length h1 > 30 then tl h1 else h1)
               else fpsHistory m);
          m1 = m\<lparr>fpsHistory := h, lastFrameTime := ts\<rparr>
      in (if length h = 0 then 0 else sum_list_reduce h / real (length h), m1))"

definition estimateBrightness :: "VideoElement \<Rightarrow> real" where
  "estimateBrightness v =
     (case centerCrop v of
        None \<Rightarrow> 128
      | Some pixels \<Rightarrow>
          foldl (\<lambda>s (r, g, b). s + (299 / 1000 * r + 587 / 1000 * g + 114 / 1000 * b)) 0 pixels
            / (100 * 100))"

definition list_max :: "real list \<Rightarrow> real" where
  \<comment> \<open>\<open>Math.max(...xs)\<close> of a non-empty list\<close>
  "list_max xs = fold max (tl xs) (hd xs)"

definition list_min :: "real list \<Rightarrow> real" where
  \<comment> \<open>\<open>Math.min(...xs)\<close> of a non-empty list\<close>
  "list_min xs = fold min (tl xs) (hd xs)"

definition calculateLandmarkSpread :: "Point list \<Rightarrow> real" where
  "calculateLandmarkSpread landmarks =
     (if length landmarks = 0 then 0
      else
        let xs = map px landmarks;
            ys = map py landmarks;
            xRange = list_max xs - list_min xs;
            yRange = list_max ys - list_min ys
        in sqrt (xRange * xRange + yRange * yRange))"

definition detectEyeOcclusion :: "Point list \<Rightarrow> Point list \<Rightarrow> real" where
  \<comment> \<open>the arguments are \<open>eyeLandmarks.leftEye\<close> and \<open>eyeLandmarks.rightEye\<close>\<close>
  "detectEyeOcclusion leftE rightE =
     (let avgSpread = (calculateLandmarkSpread leftE + calculateLandmarkSpread rightE) / 2
      in if avgSpread < 1 / 100 then 8 / 10
         else if avgSpread < 15 / 1000 then 4 / 10
         else 0)"

definition defined_points :: "Point option list \<Rightarrow> error + Point list" where
  \<comment> \<open>reading the coordinates of every entry: a \<open>TypeError\<close> on \<open>undefined\<close>\<close>
  "defined_points ps = (if list_all (\<lambda>p. p \<noteq> None) ps then Inr (map the ps) else Inl TypeError)"

definition detectGlassesGlare :: "VideoElement \<Rightarrow> Point list list \<Rightarrow> bool" where
  \<comment> \<open>for a result with at least one face, for which \<open>extractEyeLandmarks\<close> is not null\<close>
  "detectGlassesGlare v faces = (estimateBrightness v > 200)"

definition assessQuality ::
  "VideoElement \<Rightarrow> FaceLandmarkerResult option \<Rightarrow> real \<Rightarrow> real \<Rightarrow> QualityMonitor
     \<Rightarrow> (error + QualityFlags) \<times> QualityMonitor" where
  \<comment> \<open>the fourth argument is the reading of \<open>Date.now()\<close>; the state is returned also
      when the call throws, since \<open>calculateFPS\<close> has run by then\<close>
  "assessQuality videoElement landmarkResult ts now m =
     (let warm = (now - startTime m < warmupDuration (qconfig m));
          flags0 = (if warm then [MODEL_WARMING_UP] else []);
          c0 = (if warm then 1 * (1 / 2) else 1);
          (fpsv, m1) = calculateFPS ts m;
          details0 = \<lparr> fps = Some fpsv, faceCount = None, brightness = None,
                        poseAngles = None \<rparr>;
          lowFps = (fpsv < lowFpsThreshold (qconfig m) \<and> fpsv > 0);
          flags1 = (if lowFps then flags0 @ [LOW_FPS] else flags0);
          c1 = (if lowFps then c0 * (7 / 10) else c0)
      in if noFace landmarkResult
         then (Inr \<lparr> flags = flags1 @ [FACE_NOT_FOUND], qualityConfidence = 0,
                     details = details0 \<rparr>, m1)
         else
           (let faces = the (faceLandmarks (the landmarkResult));
                multi = (length faces > 1);
                flags2 = (if multi then flags1 @ [MULTI_FACE_DETECTED] else flags1);
                details2 = (if multi then details0\<lparr>faceCount := Some (length faces)\<rparr>
                            else details0);
                c2 = (if multi then c1 * (6 / 10) else c1);
                bright = estimateBrightness videoElement;
                details3 = details2\<lparr>brightness := Some bright\<rparr>;
                lowLight = (bright < lowLightThreshold (qconfig m));
                flags3 = (if lowLight then flags2 @ [LOW_LIGHT] else flags2);
                c3 = (if lowLight then c2 * (8 / 10) else c2)
            in case calculatePoseAngles faces 0 of
                 Inl err \<Rightarrow> (Inl err, m1)
               | Inr pose \<Rightarrow>
                   (let details4 = details3\<lparr>poseAngles := Some pose\<rparr>;
                        unstable = (js_gt (js_abs (yaw pose)) (Fin (poseYawThreshold (qconfig m)))
                                    \<or> \<bar>pitch pose\<bar> > posePitchThreshold (qconfig m)
                                    \<or> \<bar>roll pose\<bar> > poseRollThreshold (qconfig m));
                        flags4 = (if unstable then flags3 @ [POSE_UNSTABLE] else flags3);
                        c4 = (if unstable then c3 * (7 / 10) else c3);
                        (leftO, rightO) = extractEyeLandmarks faces 0
                    in case (defined_points leftO, defined_points rightO) of
                         (Inr leftE, Inr rightE) \<Rightarrow>
                           (let occluded = (detectEyeOcclusion leftE rightE > 3 / 10);
                                flags5 = (if occluded then flags4 @ [EYE_OCCLUDED] else flags4);
                                c5 = (if occluded then c4 * (6 / 10) else c4);
                                glare = detectGlassesGlare videoElement faces;
                                flags6 = (if glare then flags5 @ [GLASSES_GLARE_SUSPECTED]
                                          else flags5);
                                c6 = (if glare then c5 * (85 / 100) else c5)
                            in (Inr \<lparr> flags = flags6, qualityConfidence = c6,
                                        details = details4 \<rparr>, m1))
                       | _ \<Rightarrow> (Inl TypeError, m1))))"

section \<open>Burst check of the camera engine\<close>

text \<open>
  \<open>runDistanceBurst\<close> of \<open>modules/camera/CameraEngine.ts\<close>. The function is asynchronous:
  between two evaluations of its loop condition the frame loop of the engine may replace
  \<open>lastDistanceResult\<close>. The environment is an argument: the clock reading at the start
  and, for each evaluation of the loop condition, the clock reading and the
  \<open>lastDistanceResult\<close> of that moment. A list of evaluations that ends before the deadline
  is reached gives no result (\<open>None\<close>). What the function does to the outside is
  returned as a list of effects.
\<close>

record QualitySummary =
  sumFlags :: "QualityFlag list"
  sumConfidence :: real

record DistanceBurstResult =
  burstBucket :: Bucket
  estimatedCm :: "jsnum option"
  burstConfidence :: real
  qualityFlags :: QualitySummary
  sampleCount :: nat
  burstDuration :: real

record CameraEngine =
  distanceEstimator :: DistanceEstimator
  isRunning :: bool
  videoElement :: "VideoElement option"
  lastDistanceResult :: "DistanceResult option"

datatype Effect = StartPreview | StopPreview | ReadClock | Sleep real

datatype BurstOutcome =
    Returned DistanceBurstResult
  | Rejected      \<comment> \<open>\<open>startPreview\<close> threw: no camera\<close>
  | Pending       \<comment> \<open>the deadline is not reached within the iterations supplied\<close>

record BurstEnv =
  clockAtStart :: real
  iterations :: "(real \<times> DistanceResult option) list"
  previewFails :: bool

fun burstLoop ::
  "real \<Rightarrow> (real \<times> DistanceResult option) list \<Rightarrow> jsnum list \<Rightarrow> Effect list
     \<Rightarrow> (jsnum list \<times> Effect list) option" where
  \<comment> \<open>\<open>while (Date.now() < end) { ...; await sleep(100) }\<close>; \<open>endTime\<close> is \<open>end\<close>\<close>
  "burstLoop endTime [] collectedCms effs = None"
| "burstLoop endTime ((now, lastResult) # rest) collectedCms effs =
     (if now < endTime
      then burstLoop endTime rest
             (case lastResult of
                Some r \<Rightarrow> if js_gt (estCm r) (Fin 0) then collectedCms @ [estCm r]
                          else collectedCms
              | None \<Rightarrow> collectedCms)
             (effs @ [ReadClock, Sleep 100])
      else Some (collectedCms, effs @ [ReadClock]))"

definition unknownBurst :: "real \<Rightarrow> DistanceBurstResult" where
  \<comment> \<open>the object literal of both \<open>UNKNOWN\<close> returns, with its \<open>duration\<close>\<close>
  "unknownBurst dur =
     \<lparr> burstBucket = UNKNOWN, estimatedCm = None, burstConfidence = 0,
       qualityFlags = \<lparr> sumFlags = [], sumConfidence = 0 \<rparr>,
       sampleCount = 0, burstDuration = dur \<rparr>"

definition runDistanceBurst ::
  "real option \<Rightarrow> BurstEnv \<Rightarrow> CameraEngine \<Rightarrow> BurstOutcome \<times> Effect list" where
  \<comment> \<open>the first argument is \<open>options.durationMs\<close>\<close>
  "runDistanceBurst durationMs env eng =
     (let ms = (case durationMs of Some d \<Rightarrow> if d = 0 then 1500 else d | None \<Rightarrow> 1500) in
      if \<not> isCalibratedD (distanceEstimator eng) then (Returned (unknownBurst 0), [])
      else
        (let temporarilyStarted = (\<not> isRunning eng) in
         if temporarilyStarted \<and> previewFails env then (Rejected, [StartPreview])
         else
           (let effs0 = (if temporarilyStarted then [StartPreview] else []);
                start = clockAtStart env;
                endTime = start + ms
            in case burstLoop endTime (iterations env) [] (effs0 @ [ReadClock]) of
                 None \<Rightarrow> (Pending, effs0 @ [ReadClock])
               | Some (collectedCms, effs1) \<Rightarrow>
                   (let effs2 = (if temporarilyStarted then effs1 @ [StopPreview] else effs1)
                    in if length collectedCms = 0 then (Returned (unknownBurst ms), effs2)
                       else
                         (let sorted = js_sort collectedCms;
                              medianCm = sorted ! (length sorted div 2);
                              b = (if js_lt medianCm (Fin 30) then NEAR
                                   else if js_gt medianCm (Fin 60) then FAR else OK)
                          in (Returned
                                \<lparr> burstBucket = b, estimatedCm = Some medianCm,
                                  burstConfidence = 9 / 10,
                                  qualityFlags = \<lparr> sumFlags = [], sumConfidence = 9 / 10 \<rparr>,
                                  sampleCount = length collectedCms, burstDuration = ms \<rparr>,
                              effs2))))))"

section \<open>Notions of the specification\<close>

text \<open>
  The definitions of this section follow the words of the specification, not the code:
  they are what the code is compared with.
\<close>

definition median_spec :: "real list \<Rightarrow> real" where
  \<comment> \<open>the median of the specification's scenario (samples 200, 202, ..., 210 have median
      205): the middle of the sorted samples, the mean of the two middle ones for an even
      count\<close>
  "median_spec xs =
     (let sorted = sort xs; n = length sorted
      in if odd n then sorted ! (n div 2)
         else (sorted ! (n div 2 - 1) + sorted ! (n div 2)) / 2)"

definition mean :: "real list \<Rightarrow> real" where
  "mean xs = sum_list xs / real (length xs)"

definition variance :: "real list \<Rightarrow> real" where
  \<comment> \<open>the variance of a sequence of values\<close>
  "variance xs = sum_list (map (\<lambda>x. (x - mean xs) * (x - mean xs)) xs) / real (length xs)"

fun ema :: "real \<Rightarrow> real list \<Rightarrow> real list" where
  \<comment> \<open>\<open>smoothed = 0.2 * raw + 0.8 * previousSmoothed\<close> along a sequence, from a previous
      smoothed value\<close>
  "ema prev [] = []"
| "ema prev (r # rs) = (2 / 10 * r + 8 / 10 * prev) # ema (2 / 10 * r + 8 / 10 * prev) rs"

definition ema_seq :: "real list \<Rightarrow> real list" where
  \<comment> \<open>the smoothed sequence of a raw sequence, from a cold state: the first smoothed value
      is the first raw value\<close>
  "ema_seq raws = (case raws of [] \<Rightarrow> [] | r # rs \<Rightarrow> r # ema r rs)"

definition flag_multiplier :: "QualityFlag \<Rightarrow> real" where
  \<comment> \<open>the per-defect multiplier of a flag; a missing face forces the confidence to 0\<close>
  "flag_multiplier f =
     (case f of
        MODEL_WARMING_UP \<Rightarrow> 1 / 2
      | LOW_FPS \<Rightarrow> 7 / 10
      | FACE_NOT_FOUND \<Rightarrow> 0
      | MULTI_FACE_DETECTED \<Rightarrow> 6 / 10
      | LOW_LIGHT \<Rightarrow> 8 / 10
      | POSE_UNSTABLE \<Rightarrow> 7 / 10
      | EYE_OCCLUDED \<Rightarrow> 6 / 10
      | GLASSES_GLARE_SUSPECTED \<Rightarrow> 85 / 100)"

definition confidence_is_product :: "QualityFlag list \<Rightarrow> real \<Rightarrow> bool" where
  \<comment> \<open>the confidence lies in [0, 1] and is the product of the multipliers of the flags\<close>
  "confidence_is_product fl c =
     (0 \<le> c \<and> c \<le> 1 \<and> c = prod_list (map flag_multiplier fl))"

section \<open>Concrete inputs\<close>

definition origin :: Point where
  "origin = \<lparr>px = 0, py = 0\<rparr>"

definition faceWithIOD :: "real \<Rightarrow> Point list" where
  \<comment> \<open>478 landmarks; the eye corners 33 and 263 are \<open>dx\<close> apart\<close>
  "faceWithIOD dx = (replicate 478 origin)[263 := \<lparr>px = dx, py = 0\<rparr>]"

definition calibSamples12 :: "real list" where
  \<comment> \<open>twelve pixel distances with the values 200, 202, ..., 210\<close>
  "calibSamples12 = [200, 202, 204, 206, 208, 210, 200, 202, 204, 206, 208, 210]"

definition stepRaws :: "real list" where
  \<comment> \<open>one raw distance of 100 cm, then eleven of 50 cm\<close>
  "stepRaws = 100 # replicate 11 50"

definition stepFrames :: "(real \<times> Point list option) list" where
  \<comment> \<open>frames of width 1000 whose raw distances, uncalibrated (K = 8500), are \<open>stepRaws\<close>\<close>
  "stepFrames =
     (1000, Some (faceWithIOD (85 / 1000)))
       # replicate 11 (1000, Some (faceWithIOD (170 / 1000)))"

definition collapsedFace :: "Point list" where
  \<comment> \<open>478 landmarks: the nose tip midway between the cheeks, every eye-contour point at the
      origin\<close>
  "collapsedFace =
     (replicate 478 origin)
       [1 := \<lparr>px = 1 / 2, py = 1 / 2\<rparr>, 234 := \<lparr>px = 3 / 10, py = 1 / 2\<rparr>,
        454 := \<lparr>px = 7 / 10, py = 1 / 2\<rparr>]"

definition plainVideo :: VideoElement where
  \<comment> \<open>a video element without a 2d context: brightness 128\<close>
  "plainVideo = \<lparr> videoWidth = 1280, videoHeight = 720, centerCrop = None \<rparr>"

definition darkVideo :: VideoElement where
  \<comment> \<open>a video element whose centre crop is black\<close>
  "darkVideo = \<lparr> videoWidth = 1280, videoHeight = 720, centerCrop = Some [(0, 0, 0)] \<rparr>"

definition idleEngine :: "real option \<Rightarrow> CameraEngine" where
  \<comment> \<open>an engine that is not running; the argument is the content of the storage\<close>
  "idleEngine stored =
     \<lparr> distanceEstimator = newDistanceEstimator stored, isRunning = False,
       videoElement = None, lastDistanceResult = None \<rparr>"

section \<open>Verification of the blink detector\<close>

subsection \<open>Helper lemmas\<close>

lemma hypot_0_left: "hypot 0 b = \<bar>b\<bar>"
  by (simp add: hypot_def)

lemma hypot_0_right: "hypot a 0 = \<bar>a\<bar>"
  by (simp add: hypot_def)

lemma calculateEAR_eyeWithEAR: "0 \<le> a \<Longrightarrow> calculateEAR (eyeWithEAR a) = a"
  by (simp add: calculateEAR_def eyeWithEAR_def hypot_0_left hypot_0_right Let_def)

lemmas blink_eval_defs =
  run_def blinkTrace_def frameWithEAR_def processFrame_def calculateEAR_eyeWithEAR
  smoothOpenness_def sorted_mid_def calibrateBaseline_def updateStateMachine_def trackMin_def
  completeBlink_def newBlinkDetector_def DEFAULT_CONFIG_def Let_def

lemma oneBlink_eval:
  "oneBlink =
     \<lparr> config = DEFAULT_CONFIG, state = OPEN,
       blinkHistory =
         [\<lparr>timestamp = 1233, isComplete = True, minOpenness = 1 / 10, duration = 133\<rparr>],
       opennessHistory =
         [\<lparr>eo_left = 1, eo_right = 1, eo_timestamp = 1000\<rparr>,
          \<lparr>eo_left = 1, eo_right = 1, eo_timestamp = 1033\<rparr>,
          \<lparr>eo_left = 1 / 10, eo_right = 1 / 10, eo_timestamp = 1066\<rparr>,
          \<lparr>eo_left = 1 / 10, eo_right = 1 / 10, eo_timestamp = 1100\<rparr>,
          \<lparr>eo_left = 1 / 10, eo_right = 1 / 10, eo_timestamp = 1133\<rparr>,
          \<lparr>eo_left = 1, eo_right = 1, eo_timestamp = 1166\<rparr>,
          \<lparr>eo_left = 1, eo_right = 1, eo_timestamp = 1200\<rparr>,
          \<lparr>eo_left = 1, eo_right = 1, eo_timestamp = 1233\<rparr>],
       smoothingWindow = [1, 1, 1], monitoringStartTime = 0, baselineOpenness = 35 / 100,
       currentBlinkStart = 1100, currentBlinkMinOpenness = 1 / 10, lastBlinkTimestamp = 1233,
       isCalibrated = False, calibrationSamples = [1, 1, 1, 1, 1], currentEAR = 35 / 100 \<rparr>"
  unfolding oneBlink_def by (simp add: blink_eval_defs)

lemma completeBlink_accept:
  assumes "minBlinkDuration (config d) \<le> ts - currentBlinkStart d"
    and "ts - currentBlinkStart d \<le> maxBlinkDuration (config d)"
    and "debounceTime (config d) \<le> ts - lastBlinkTimestamp d"
  shows "completeBlink ts d =
           d\<lparr> blinkHistory :=
                filter (\<lambda>b. timestamp b > ts - 60000) (blinkHistory d) @
                  [\<lparr> timestamp = ts,
                     isComplete = (currentBlinkMinOpenness d / baselineOpenness d
                                     \<le> incompleteThreshold (config d)),
                     minOpenness = currentBlinkMinOpenness d,
                     duration = ts - currentBlinkStart d \<rparr>],
              lastBlinkTimestamp := ts \<rparr>"
  using assms by (simp add: completeBlink_def Let_def)

lemma completeBlink_reject:
  assumes "ts - currentBlinkStart d < minBlinkDuration (config d)
           \<or> maxBlinkDuration (config d) < ts - currentBlinkStart d
           \<or> ts - lastBlinkTimestamp d < debounceTime (config d)"
  shows "completeBlink ts d = d"
  using assms by (auto simp add: completeBlink_def Let_def)

lemma completeBlink_fields [simp]:
  "config (completeBlink ts d) = config d"
  "currentBlinkMinOpenness (completeBlink ts d) = currentBlinkMinOpenness d"
  "currentBlinkStart (completeBlink ts d) = currentBlinkStart d"
  "baselineOpenness (completeBlink ts d) = baselineOpenness d"
  "calibrationSamples (completeBlink ts d) = calibrationSamples d"
  by (simp_all add: completeBlink_def Let_def)

lemma trackMin_fields [simp]:
  "config (trackMin x d) = config d"
  "blinkHistory (trackMin x d) = blinkHistory d"
  "lastBlinkTimestamp (trackMin x d) = lastBlinkTimestamp d"
  "state (trackMin x d) = state d"
  "currentBlinkStart (trackMin x d) = currentBlinkStart d"
  "baselineOpenness (trackMin x d) = baselineOpenness d"
  "calibrationSamples (trackMin x d) = calibrationSamples d"
  "currentBlinkMinOpenness (trackMin x d) = min x (currentBlinkMinOpenness d)"
  by (simp_all add: trackMin_def)

lemma calibrateBaseline_fields [simp]:
  "config (calibrateBaseline x d) = config d"
  "blinkHistory (calibrateBaseline x d) = blinkHistory d"
  "lastBlinkTimestamp (calibrateBaseline x d) = lastBlinkTimestamp d"
  by (simp_all add: calibrateBaseline_def Let_def split: option.splits)

lemma smoothOpenness_fields [simp]:
  "config (snd (smoothOpenness x d)) = config d"
  "blinkHistory (snd (smoothOpenness x d)) = blinkHistory d"
  "lastBlinkTimestamp (snd (smoothOpenness x d)) = lastBlinkTimestamp d"
  "baselineOpenness (snd (smoothOpenness x d)) = baselineOpenness d"
  "calibrationSamples (snd (smoothOpenness x d)) = calibrationSamples d"
  "isCalibrated (snd (smoothOpenness x d)) = isCalibrated d"
  by (simp_all add: smoothOpenness_def Let_def)

lemma updateStateMachine_config [simp]: "config (updateStateMachine x ts d) = config d"
  by (simp add: updateStateMachine_def Let_def split: BlinkState.splits)

text \<open>
  The state a frame with landmarks leaves behind: the state machine runs on a detector
  \<open>d'\<close> that differs from the one before the frame in the smoothing window, the openness
  history, \<open>currentEAR\<close> and the baseline calibration only; with an empty smoothing window
  it does not run.
\<close>

lemma processFrame_Some_cases:
  obtains (skipped) d' where
      "snd (processFrame (Some l) ts d) = d'" "config d' = config d"
      "blinkHistory d' = blinkHistory d" "lastBlinkTimestamp d' = lastBlinkTimestamp d"
      "baselineOpenness d' = baselineOpenness d" "calibrationSamples d' = calibrationSamples d"
  | (stepped) s d3 where
      "snd (processFrame (Some l) ts d) =
         updateStateMachine s ts (if \<not> isCalibrated d3 then calibrateBaseline s d3 else d3)"
      "config d3 = config d" "blinkHistory d3 = blinkHistory d"
      "lastBlinkTimestamp d3 = lastBlinkTimestamp d"
      "baselineOpenness d3 = baselineOpenness d" "calibrationSamples d3 = calibrationSamples d"
proof -
  define x where
    "x = min 1 ((calculateEAR (leftEye l) + calculateEAR (rightEye l)) / 2 / (35 / 100))"
  define d1 where "d1 = snd (smoothOpenness x d)"
  define d3 where
    "d3 = d1\<lparr> currentEAR := (calculateEAR (leftEye l) + calculateEAR (rightEye l)) / 2,
              opennessHistory := filter (\<lambda>h. eo_timestamp h > ts - 60000)
                (opennessHistory d1 @
                  [\<lparr> eo_left = calculateEAR (leftEye l) / (35 / 100),
                     eo_right = calculateEAR (rightEye l) / (35 / 100),
                     eo_timestamp = ts \<rparr>]) \<rparr>"
  have keep: "config d3 = config d" "blinkHistory d3 = blinkHistory d"
    "lastBlinkTimestamp d3 = lastBlinkTimestamp d" "baselineOpenness d3 = baselineOpenness d"
    "calibrationSamples d3 = calibrationSamples d"
    by (simp_all add: d3_def d1_def)
  show thesis
  proof (cases "fst (smoothOpenness x d)")
    case None
    then have "snd (processFrame (Some l) ts d) = d3"
      by (simp add: processFrame_def Let_def case_prod_beta x_def d3_def d1_def)
    then show thesis using keep by (rule skipped)
  next
    case (Some s)
    then have "snd (processFrame (Some l) ts d) =
        updateStateMachine s ts (if \<not> isCalibrated d3 then calibrateBaseline s d3 else d3)"
      by (simp add: processFrame_def Let_def case_prod_beta x_def d3_def d1_def)
    then show thesis using keep by (rule stepped)
  qed
qed

text \<open>
  A property of the detector that depends on the configuration, the blink history and the
  time of the last accepted blink only, that \<open>completeBlink\<close> preserves and that holds
  after \<open>reset\<close>, holds after every sequence of calls.
\<close>

lemma run_invariant:
  assumes dep: "\<And>d d'. config d' = config d \<Longrightarrow> blinkHistory d' = blinkHistory d
                  \<Longrightarrow> lastBlinkTimestamp d' = lastBlinkTimestamp d \<Longrightarrow> P d \<Longrightarrow> P d'"
    and fin: "\<And>d ts. P d \<Longrightarrow> P (completeBlink ts d)"
    and rst: "\<And>d now. P d \<Longrightarrow> P (reset now d)"
    and init: "P d"
  shows "P (run cs d)"
proof -
  have usm: "P (updateStateMachine x ts d)" if "P d" for x ts d
  proof (cases "state d")
    case OPEN
    show ?thesis
      by (rule dep [OF _ _ _ that]) (simp_all add: updateStateMachine_def OPEN Let_def)
  next
    case CLOSING
    show ?thesis
      by (rule dep [OF _ _ _ that]) (simp_all add: updateStateMachine_def CLOSING Let_def)
  next
    case CLOSED
    show ?thesis
      by (rule dep [OF _ _ _ that]) (simp_all add: updateStateMachine_def CLOSED Let_def)
  next
    case OPENING
    have tm: "P (trackMin x d)" by (rule dep [OF _ _ _ that]) simp_all
    show ?thesis
    proof (cases "x * (35 / 100) \<ge> earOpenThreshold (config d)")
      case True
      then have eq: "updateStateMachine x ts d = (completeBlink ts (trackMin x d))\<lparr>state := OPEN\<rparr>"
        by (simp add: updateStateMachine_def OPENING Let_def)
      show ?thesis unfolding eq
        by (rule dep [OF _ _ _ fin [OF tm]]) simp_all
    next
      case False
      then have eq: "updateStateMachine x ts d = trackMin x d"
        by (simp add: updateStateMachine_def OPENING Let_def)
      show ?thesis unfolding eq by (rule tm)
    qed
  qed
  have pf: "P (snd (processFrame lm ts d))" if "P d" for lm ts d
  proof (cases lm)
    case None
    with that show ?thesis by (simp add: processFrame_def)
  next
    case (Some l)
    have "P (snd (processFrame (Some l) ts d))"
    proof (cases rule: processFrame_Some_cases [of l ts d])
      case (skipped d')
      show ?thesis unfolding skipped(1)
        by (rule dep [OF skipped(2) skipped(3) skipped(4) that])
    next
      case (stepped s d3)
      have "P d3" by (rule dep [OF stepped(2) stepped(3) stepped(4) that])
      then have "P (if \<not> isCalibrated d3 then calibrateBaseline s d3 else d3)"
        by (auto intro: dep [of _ d3])
      then show ?thesis unfolding stepped(1) by (rule usm)
    qed
    with Some show ?thesis by simp
  qed
  have step: "P (call c d)" if "P d" for c d
    using that by (cases c) (simp_all add: pf rst)
  show ?thesis using init unfolding run_def
    by (induction cs arbitrary: d) (simp_all add: step)
qed

lemma durations_ok_run: "durations_ok (run cs (newBlinkDetector cfg))"
proof (rule run_invariant)
  show "durations_ok (newBlinkDetector cfg)"
    by (simp add: durations_ok_def newBlinkDetector_def)
next
  fix d :: BlinkDetector and now
  show "durations_ok (reset now d)" by (simp add: durations_ok_def reset_def)
next
  fix d d' :: BlinkDetector
  assume "config d' = config d" "blinkHistory d' = blinkHistory d" "durations_ok d"
  then show "durations_ok d'" by (simp add: durations_ok_def)
next
  fix d :: BlinkDetector and ts
  assume "durations_ok d"
  then show "durations_ok (completeBlink ts d)"
    by (auto simp add: durations_ok_def completeBlink_def Let_def list_all_iff)
qed

lemma gaps_ok_completeBlink:
  assumes ok: "gaps_ok d" and deb: "0 \<le> debounceTime (config d)"
  shows "gaps_ok (completeBlink ts d)"
proof (cases "minBlinkDuration (config d) \<le> ts - currentBlinkStart d
              \<and> ts - currentBlinkStart d \<le> maxBlinkDuration (config d)
              \<and> debounceTime (config d) \<le> ts - lastBlinkTimestamp d")
  case False
  then have "completeBlink ts d = d" by (intro completeBlink_reject) auto
  with ok show ?thesis by simp
next
  case True
  then have eq: "completeBlink ts d =
           d\<lparr> blinkHistory :=
                filter (\<lambda>b. timestamp b > ts - 60000) (blinkHistory d) @
                  [\<lparr> timestamp = ts,
                     isComplete = (currentBlinkMinOpenness d / baselineOpenness d
                                     \<le> incompleteThreshold (config d)),
                     minOpenness = currentBlinkMinOpenness d,
                     duration = ts - currentBlinkStart d \<rparr>],
              lastBlinkTimestamp := ts \<rparr>"
    by (intro completeBlink_accept) auto
  from ok have old: "\<And>e. e \<in> set (blinkHistory d) \<Longrightarrow>
         debounceTime (config d) \<le> timestamp e \<and> timestamp e \<le> lastBlinkTimestamp d"
    and srt: "sorted_wrt (\<lambda>a b. debounceTime (config d) \<le> timestamp b - timestamp a)
                (blinkHistory d)"
    and last0: "0 \<le> lastBlinkTimestamp d"
    by (auto simp add: gaps_ok_def list_all_iff)
  have srt': "sorted_wrt (\<lambda>a b. debounceTime (config d) \<le> timestamp b - timestamp a)
               (filter (\<lambda>b. timestamp b > ts - 60000) (blinkHistory d))"
    using srt by (rule sorted_wrt_filter)
  show ?thesis
    unfolding eq gaps_ok_def
    using True deb old srt' last0
    by (auto simp add: sorted_wrt_append list_all_iff) force+
qed

lemma gaps_ok_run:
  assumes "0 \<le> debounceTime cfg"
  shows "gaps_ok (run cs (newBlinkDetector cfg))"
proof -
  have "0 \<le> debounceTime (config (run cs (newBlinkDetector cfg)))
        \<and> gaps_ok (run cs (newBlinkDetector cfg))"
  proof (rule run_invariant)
    show "0 \<le> debounceTime (config (newBlinkDetector cfg)) \<and> gaps_ok (newBlinkDetector cfg)"
      using assms by (simp add: gaps_ok_def newBlinkDetector_def)
  next
    fix d :: BlinkDetector and now
    assume "0 \<le> debounceTime (config d) \<and> gaps_ok d"
    then show "0 \<le> debounceTime (config (reset now d)) \<and> gaps_ok (reset now d)"
      by (simp add: gaps_ok_def reset_def)
  next
    fix d d' :: BlinkDetector
    assume "config d' = config d" "blinkHistory d' = blinkHistory d"
      "lastBlinkTimestamp d' = lastBlinkTimestamp d" "0 \<le> debounceTime (config d) \<and> gaps_ok d"
    then show "0 \<le> debounceTime (config d') \<and> gaps_ok d'" by (simp add: gaps_ok_def)
  next
    fix d :: BlinkDetector and ts
    assume "0 \<le> debounceTime (config d) \<and> gaps_ok d"
    then show "0 \<le> debounceTime (config (completeBlink ts d)) \<and> gaps_ok (completeBlink ts d)"
      by (simp add: gaps_ok_completeBlink)
  qed
  then show ?thesis ..
qed

lemma sorted_mid_in_set: "sorted_mid xs = Some m \<Longrightarrow> m \<in> set xs"
proof -
  assume a: "sorted_mid xs = Some m"
  then have "length (sort xs) div 2 < length (sort xs)" and "m = sort xs ! (length (sort xs) div 2)"
    by (auto simp add: sorted_mid_def Let_def split: if_splits)
  then have "m \<in> set (sort xs)" using nth_mem by metis
  then show ?thesis by simp
qed

lemma baseline_ok_calibrateBaseline:
  assumes "baseline_ok d"
  shows "baseline_ok (calibrateBaseline x d)"
proof -
  define samples where
    "samples = (if x > 1 / 2 then calibrationSamples d @ [x] else calibrationSamples d)"
  have all: "list_all (\<lambda>x. 1 / 2 < x) samples"
    using assms by (simp add: samples_def baseline_ok_def)
  have pos: "0 < m" if "sorted_mid samples = Some m" for m
  proof -
    have "m \<in> set samples" using that by (rule sorted_mid_in_set)
    with all have "1 / 2 < m" by (simp add: list_all_iff)
    then show ?thesis by simp
  qed
  have eq: "calibrateBaseline x d =
      (if length samples \<ge> 30
       then (case sorted_mid samples of
               Some m \<Rightarrow> d\<lparr>calibrationSamples := samples, baselineOpenness := m,
                            isCalibrated := True\<rparr>
             | None \<Rightarrow> d\<lparr>calibrationSamples := samples\<rparr>)
       else d\<lparr>calibrationSamples := samples\<rparr>)"
    unfolding calibrateBaseline_def Let_def samples_def [symmetric] by simp
  show ?thesis
  proof (cases "sorted_mid samples")
    case None
    with all assms show ?thesis unfolding eq by (simp add: baseline_ok_def)
  next
    case (Some m)
    with all assms pos [OF Some] show ?thesis unfolding eq by (simp add: baseline_ok_def)
  qed
qed

lemma updateStateMachine_baseline [simp]:
  "baselineOpenness (updateStateMachine x ts d) = baselineOpenness d"
  "calibrationSamples (updateStateMachine x ts d) = calibrationSamples d"
  by (simp_all add: updateStateMachine_def Let_def split: BlinkState.splits)

lemma baseline_ok_processFrame:
  assumes "baseline_ok d"
  shows "baseline_ok (snd (processFrame lm ts d))"
proof (cases lm)
  case None
  with assms show ?thesis by (simp add: processFrame_def)
next
  case (Some l)
  have "baseline_ok (snd (processFrame (Some l) ts d))"
  proof (cases rule: processFrame_Some_cases [of l ts d])
    case (skipped d')
    with assms show ?thesis by (simp add: baseline_ok_def)
  next
    case (stepped s d3)
    from stepped(5,6) assms have "baseline_ok d3" by (simp add: baseline_ok_def)
    then have "baseline_ok (if \<not> isCalibrated d3 then calibrateBaseline s d3 else d3)"
      by (simp add: baseline_ok_calibrateBaseline)
    then show ?thesis unfolding stepped(1) by (simp add: baseline_ok_def)
  qed
  with Some show ?thesis by simp
qed

lemma baseline_ok_run: "baseline_ok (run cs (newBlinkDetector cfg))"
proof -
  have step: "baseline_ok (call c d)" if "baseline_ok d" for c d
    using that by (cases c) (simp_all add: baseline_ok_processFrame, simp add: baseline_ok_def reset_def)
  have "baseline_ok d \<Longrightarrow> baseline_ok (fold call cs d)" for d
    by (induction cs arbitrary: d) (simp_all add: step)
  moreover have "baseline_ok (newBlinkDetector cfg)"
    by (simp add: baseline_ok_def newBlinkDetector_def)
  ultimately show ?thesis by (simp add: run_def)
qed

lemma js_round_numeral_simps:
  "js_round 100 = 100" "js_round 85 = 85" "js_round 70 = 70" "js_round 50 = 50"
  "js_round (85 / 2) = 43" "js_round 35 = 35" "js_round 80 = 80" "js_round 68 = 68"
  "js_round 56 = 56" "js_round 40 = 40" "js_round 34 = 34" "js_round 28 = 28"
  by (simp_all add: js_round_def)

subsection \<open>C1: validation of blink candidates\<close>

text \<open>
  C1. \<open>completeBlink\<close> records an event exactly when the candidate's duration lies within
  \<open>[minBlinkDuration, maxBlinkDuration]\<close> and its timestamp is at least \<open>debounceTime\<close>
  after \<open>lastBlinkTimestamp\<close>: the event is then appended (after the history is pruned to
  the last 60 seconds) and \<open>lastBlinkTimestamp\<close> is set; a candidate violating either
  condition leaves the detector unchanged. After every sequence of \<open>processFrame\<close> and
  \<open>reset\<close> calls on a new detector every event of \<open>blinkHistory\<close> has a duration within
  the bounds, and, the debounce time being non-negative, events are at least
  \<open>debounceTime\<close> apart.
\<close>

theorem completeBlink_validates:
  "(minBlinkDuration (config d) \<le> ts - currentBlinkStart d
      \<and> ts - currentBlinkStart d \<le> maxBlinkDuration (config d)
      \<and> debounceTime (config d) \<le> ts - lastBlinkTimestamp d
    \<longrightarrow> completeBlink ts d =
          d\<lparr> blinkHistory :=
               filter (\<lambda>b. timestamp b > ts - 60000) (blinkHistory d) @
                 [\<lparr> timestamp = ts,
                    isComplete = (currentBlinkMinOpenness d / baselineOpenness d
                                    \<le> incompleteThreshold (config d)),
                    minOpenness = currentBlinkMinOpenness d,
                    duration = ts - currentBlinkStart d \<rparr>],
             lastBlinkTimestamp := ts \<rparr>)
   \<and> (ts - currentBlinkStart d < minBlinkDuration (config d)
        \<or> maxBlinkDuration (config d) < ts - currentBlinkStart d
        \<or> ts - lastBlinkTimestamp d < debounceTime (config d)
      \<longrightarrow> completeBlink ts d = d)
   \<and> durations_ok (run cs (newBlinkDetector cfg))
   \<and> (0 \<le> debounceTime cfg \<longrightarrow> gaps_ok (run cs (newBlinkDetector cfg)))"
  using completeBlink_accept [of d ts] completeBlink_reject [of ts d]
    durations_ok_run [of cs cfg] gaps_ok_run [of cfg cs]
  by blast

theorem completeBlink_validates_witness:
  "completeBlink 1500 oneBlink =
     oneBlink\<lparr> blinkHistory :=
         [\<lparr>timestamp = 1233, isComplete = True, minOpenness = 1 / 10, duration = 133\<rparr>,
          \<lparr>timestamp = 1500, isComplete = True, minOpenness = 1 / 10, duration = 400\<rparr>],
        lastBlinkTimestamp := 1500 \<rparr>
   \<and> completeBlink 1501 oneBlink = oneBlink
   \<and> completeBlink 1179 oneBlink = oneBlink
   \<and> completeBlink 1300 oneBlink = oneBlink
   \<and> durations_ok oneBlink \<and> gaps_ok oneBlink"
proof -
  have cfg: "config oneBlink = DEFAULT_CONFIG" and st: "currentBlinkStart oneBlink = 1100"
    and la: "lastBlinkTimestamp oneBlink = 1233"
    and hist: "blinkHistory oneBlink =
      [\<lparr>timestamp = 1233, isComplete = True, minOpenness = 1 / 10, duration = 133\<rparr>]"
    and mn: "currentBlinkMinOpenness oneBlink = 1 / 10"
    and bl: "baselineOpenness oneBlink = 35 / 100"
    by (simp_all add: oneBlink_eval)
  have a: "completeBlink 1500 oneBlink =
     oneBlink\<lparr> blinkHistory :=
         [\<lparr>timestamp = 1233, isComplete = True, minOpenness = 1 / 10, duration = 133\<rparr>,
          \<lparr>timestamp = 1500, isComplete = True, minOpenness = 1 / 10, duration = 400\<rparr>],
        lastBlinkTimestamp := 1500 \<rparr>"
    using completeBlink_validates [of oneBlink 1500]
    by (simp add: cfg st la hist mn bl DEFAULT_CONFIG_def)
  have b: "completeBlink 1501 oneBlink = oneBlink"
    using completeBlink_validates [of oneBlink 1501]
    by (simp add: cfg st la DEFAULT_CONFIG_def)
  have c: "completeBlink 1179 oneBlink = oneBlink"
    using completeBlink_validates [of oneBlink 1179]
    by (simp add: cfg st la DEFAULT_CONFIG_def)
  have d: "completeBlink 1300 oneBlink = oneBlink"
    using completeBlink_validates [of oneBlink 1300]
    by (simp add: cfg st la DEFAULT_CONFIG_def)
  have e: "durations_ok oneBlink \<and> gaps_ok oneBlink"
    using completeBlink_validates [of oneBlink 0 blinkTrace DEFAULT_CONFIG]
    by (simp add: oneBlink_def DEFAULT_CONFIG_def)
  from a b c d e show ?thesis by blast
qed

subsection \<open>C3: transitions of the state machine\<close>

text \<open>
  C3, as amended. On each smoothed sample, with \<open>EAR = openness * 0.35\<close>: from OPEN to
  CLOSING when EAR is below the close threshold (the blink start and the running minimum
  are then set); from CLOSING to OPEN when EAR is above the open threshold, otherwise to
  CLOSED when EAR is below the blink threshold; from CLOSED to OPENING when EAR is at or
  above the blink threshold; from OPENING to OPEN, finalizing the blink, when EAR is at or
  above the open threshold. In CLOSING, CLOSED and OPENING the running minimum is updated
  on every sample; the blink history changes on no other transition.
\<close>

theorem updateStateMachine_transitions:
  "state (updateStateMachine openness ts d) =
     (case state d of
        OPEN \<Rightarrow> if openness * (35 / 100) < earCloseThreshold (config d) then CLOSING else OPEN
      | CLOSING \<Rightarrow>
          if openness * (35 / 100) > earOpenThreshold (config d) then OPEN
          else if openness * (35 / 100) < earThreshold (config d) then CLOSED else CLOSING
      | CLOSED \<Rightarrow> if openness * (35 / 100) \<ge> earThreshold (config d) then OPENING else CLOSED
      | OPENING \<Rightarrow> if openness * (35 / 100) \<ge> earOpenThreshold (config d) then OPEN else OPENING)
   \<and> currentBlinkMinOpenness (updateStateMachine openness ts d) =
       (case state d of
          OPEN \<Rightarrow> if openness * (35 / 100) < earCloseThreshold (config d) then openness
                  else currentBlinkMinOpenness d
        | _ \<Rightarrow> min openness (currentBlinkMinOpenness d))
   \<and> currentBlinkStart (updateStateMachine openness ts d) =
       (if state d = OPEN \<and> openness * (35 / 100) < earCloseThreshold (config d) then ts
        else currentBlinkStart d)
   \<and> blinkHistory (updateStateMachine openness ts d) =
       (if state d = OPENING \<and> openness * (35 / 100) \<ge> earOpenThreshold (config d)
        then blinkHistory (completeBlink ts (trackMin openness d)) else blinkHistory d)
   \<and> lastBlinkTimestamp (updateStateMachine openness ts d) =
       (if state d = OPENING \<and> openness * (35 / 100) \<ge> earOpenThreshold (config d)
        then lastBlinkTimestamp (completeBlink ts (trackMin openness d))
        else lastBlinkTimestamp d)"
proof (cases "state d")
  case OPEN
  then show ?thesis by (simp add: updateStateMachine_def Let_def)
next
  case CLOSING
  then show ?thesis by (simp add: updateStateMachine_def Let_def)
next
  case CLOSED
  then show ?thesis by (simp add: updateStateMachine_def Let_def)
next
  case OPENING
  show ?thesis
  proof (cases "openness * (35 / 100) \<ge> earOpenThreshold (config d)")
    case True
    then have "updateStateMachine openness ts d
                 = (completeBlink ts (trackMin openness d))\<lparr>state := OPEN\<rparr>"
      by (simp add: updateStateMachine_def OPENING Let_def)
    with True OPENING show ?thesis by simp
  next
    case False
    then have "updateStateMachine openness ts d = trackMin openness d"
      by (simp add: updateStateMachine_def OPENING Let_def)
    with False OPENING show ?thesis by simp
  qed
qed

theorem updateStateMachine_transitions_witness:
  "state (updateStateMachine (6 / 10) 1150 ((newBlinkDetector DEFAULT_CONFIG)\<lparr>state := CLOSED\<rparr>))
     = OPENING
   \<and> state (updateStateMachine (1 / 2) 1150
        ((newBlinkDetector DEFAULT_CONFIG)\<lparr>state := CLOSED\<rparr>)) = CLOSED
   \<and> currentBlinkMinOpenness (updateStateMachine (1 / 2) 1150
        ((newBlinkDetector DEFAULT_CONFIG)\<lparr>state := CLOSED\<rparr>)) = 1 / 2
   \<and> state (updateStateMachine (7 / 10) 1100 (newBlinkDetector DEFAULT_CONFIG)) = CLOSING
   \<and> currentBlinkStart (updateStateMachine (7 / 10) 1100 (newBlinkDetector DEFAULT_CONFIG))
       = 1100
   \<and> state (updateStateMachine (9 / 10) 1100
        ((newBlinkDetector DEFAULT_CONFIG)\<lparr>state := CLOSING\<rparr>)) = OPEN
   \<and> state (updateStateMachine (1 / 2) 1100
        ((newBlinkDetector DEFAULT_CONFIG)\<lparr>state := CLOSING\<rparr>)) = CLOSED
   \<and> state (updateStateMachine (9 / 10) 1150
        ((newBlinkDetector DEFAULT_CONFIG)\<lparr>state := OPENING\<rparr>)) = OPEN"
  using updateStateMachine_transitions
          [of "6 / 10" 1150 "(newBlinkDetector DEFAULT_CONFIG)\<lparr>state := CLOSED\<rparr>"]
        updateStateMachine_transitions
          [of "1 / 2" 1150 "(newBlinkDetector DEFAULT_CONFIG)\<lparr>state := CLOSED\<rparr>"]
        updateStateMachine_transitions [of "7 / 10" 1100 "newBlinkDetector DEFAULT_CONFIG"]
        updateStateMachine_transitions
          [of "9 / 10" 1100 "(newBlinkDetector DEFAULT_CONFIG)\<lparr>state := CLOSING\<rparr>"]
        updateStateMachine_transitions
          [of "1 / 2" 1100 "(newBlinkDetector DEFAULT_CONFIG)\<lparr>state := CLOSING\<rparr>"]
        updateStateMachine_transitions
          [of "9 / 10" 1150 "(newBlinkDetector DEFAULT_CONFIG)\<lparr>state := OPENING\<rparr>"]
  by (simp add: newBlinkDetector_def DEFAULT_CONFIG_def)

text \<open>The claim as it was stated fails here:\<close>

theorem updateStateMachine_strict_reopen_counterexample:
  "state (updateStateMachine (1 / 2) 1150
     ((newBlinkDetector (DEFAULT_CONFIG\<lparr>earThreshold := 175 / 1000\<rparr>))\<lparr>state := CLOSED\<rparr>))
     = OPENING
   \<and> \<not> (1 / 2 * (35 / 100) > earThreshold (DEFAULT_CONFIG\<lparr>earThreshold := 175 / 1000\<rparr>))
   \<and> state (updateStateMachine 1 1250
        ((newBlinkDetector (DEFAULT_CONFIG\<lparr>earOpenThreshold := 35 / 100\<rparr>))
           \<lparr>state := OPENING, currentBlinkStart := 1100\<rparr>)) = OPEN
   \<and> length (blinkHistory (updateStateMachine 1 1250
        ((newBlinkDetector (DEFAULT_CONFIG\<lparr>earOpenThreshold := 35 / 100\<rparr>))
           \<lparr>state := OPENING, currentBlinkStart := 1100\<rparr>))) = 1
   \<and> \<not> (1 * (35 / 100) > earOpenThreshold (DEFAULT_CONFIG\<lparr>earOpenThreshold := 35 / 100\<rparr>))"
  by (simp add: updateStateMachine_def trackMin_def completeBlink_def newBlinkDetector_def
        DEFAULT_CONFIG_def Let_def)

subsection \<open>C8: incomplete blinks\<close>

text \<open>
  C8. The event recorded for an accepted candidate has \<open>isComplete\<close> true if and only if
  \<open>minOpenness / baseline \<le> incompleteThreshold\<close>, so the blink is incomplete exactly when
  the ratio exceeds the threshold. (The baseline of a detector is positive after every
  sequence of calls, so the ratio is a finite number.)
\<close>

theorem incomplete_iff_ratio_above_threshold:
  assumes "minBlinkDuration (config d) \<le> ts - currentBlinkStart d"
    and "ts - currentBlinkStart d \<le> maxBlinkDuration (config d)"
    and "debounceTime (config d) \<le> ts - lastBlinkTimestamp d"
  shows "blinkHistory (completeBlink ts d) \<noteq> []
    \<and> timestamp (last (blinkHistory (completeBlink ts d))) = ts
    \<and> minOpenness (last (blinkHistory (completeBlink ts d))) = currentBlinkMinOpenness d
    \<and> (isComplete (last (blinkHistory (completeBlink ts d)))
         \<longleftrightarrow> currentBlinkMinOpenness d / baselineOpenness d \<le> incompleteThreshold (config d))
    \<and> (\<not> isComplete (last (blinkHistory (completeBlink ts d)))
         \<longleftrightarrow> currentBlinkMinOpenness d / baselineOpenness d > incompleteThreshold (config d))
    \<and> baseline_ok (run cs (newBlinkDetector cfg))"
  using assms baseline_ok_run [of cs cfg] by (auto simp add: completeBlink_accept)

theorem incomplete_iff_ratio_above_threshold_witness:
  "isComplete (last (blinkHistory (completeBlink 1500 oneBlink)))
   \<and> currentBlinkMinOpenness oneBlink / baselineOpenness oneBlink = 2 / 7
   \<and> \<not> isComplete (last (blinkHistory
         (completeBlink 1500 (oneBlink\<lparr>currentBlinkMinOpenness := 2 / 10\<rparr>))))
   \<and> baseline_ok oneBlink"
proof -
  have "isComplete (last (blinkHistory (completeBlink 1500 oneBlink)))
        \<and> currentBlinkMinOpenness oneBlink / baselineOpenness oneBlink = 2 / 7"
    using incomplete_iff_ratio_above_threshold [of oneBlink 1500]
    by (simp add: oneBlink_eval DEFAULT_CONFIG_def)
  moreover have "\<not> isComplete (last (blinkHistory
         (completeBlink 1500 (oneBlink\<lparr>currentBlinkMinOpenness := 2 / 10\<rparr>))))"
    using incomplete_iff_ratio_above_threshold
            [of "oneBlink\<lparr>currentBlinkMinOpenness := 2 / 10\<rparr>" 1500]
    by (simp add: oneBlink_eval DEFAULT_CONFIG_def)
  moreover have "baseline_ok oneBlink"
  proof -
    have "minBlinkDuration (config oneBlink) \<le> 1500 - currentBlinkStart oneBlink"
      and "1500 - currentBlinkStart oneBlink \<le> maxBlinkDuration (config oneBlink)"
      and "debounceTime (config oneBlink) \<le> 1500 - lastBlinkTimestamp oneBlink"
      by (simp_all add: oneBlink_eval DEFAULT_CONFIG_def)
    then have "baseline_ok (run blinkTrace (newBlinkDetector DEFAULT_CONFIG))"
      using incomplete_iff_ratio_above_threshold
              [of oneBlink 1500 blinkTrace DEFAULT_CONFIG]
      by blast
    then show ?thesis by (simp add: oneBlink_def)
  qed
  ultimately show ?thesis by blast
qed

subsection \<open>C7: confidence of the blink metrics\<close>

text \<open>
  C7, as amended. With at least one recorded blink, the confidence is the product of the
  discounts 0.7 (\<open>avgFps < 20\<close>) or 0.85 (\<open>avgFps < 24\<close>), 0.5 (baseline uncalibrated) and,
  in the engine's detector only, 0.8 (\<open>avgFps < 30\<close>), rounded to two decimals: the
  rounding changes one value, 0.425 to 0.43, in \<open>BlinkDetector.ts\<close>.
\<close>

theorem calculateMetrics_confidence:
  assumes "blinkHistory d \<noteq> []"
  shows "confidence (calculateMetrics durationSeconds avgFps d) =
           (if 20 \<le> avgFps \<and> avgFps < 24 \<and> \<not> isCalibrated d then 43 / 100
            else 1 * (if avgFps < 20 then 7 / 10 else if avgFps < 24 then 85 / 100 else 1)
                   * (if \<not> isCalibrated d then 1 / 2 else 1))
       \<and> confidence (calculateMetrics_engine durationSeconds avgFps d) =
           1 * (if avgFps < 20 then 7 / 10 else if avgFps < 24 then 85 / 100 else 1)
             * (if \<not> isCalibrated d then 1 / 2 else 1)
             * (if avgFps < 30 then 8 / 10 else 1)"
  using assms
  by (simp add: calculateMetrics_def calculateMetrics_engine_def Let_def js_round_numeral_simps)

theorem calculateMetrics_confidence_witness:
  "blinkHistory oneBlink \<noteq> []
   \<and> confidence (calculateMetrics 60 22 oneBlink) = 43 / 100
   \<and> confidence (calculateMetrics 60 10 oneBlink) = 35 / 100
   \<and> confidence (calculateMetrics 60 30 (oneBlink\<lparr>isCalibrated := True\<rparr>)) = 1
   \<and> confidence (calculateMetrics_engine 60 22 oneBlink) = 34 / 100
   \<and> confidence (calculateMetrics_engine 60 25 (oneBlink\<lparr>isCalibrated := True\<rparr>)) = 8 / 10"
  using calculateMetrics_confidence [of oneBlink 60 22]
    calculateMetrics_confidence [of oneBlink 60 10]
    calculateMetrics_confidence [of "oneBlink\<lparr>isCalibrated := True\<rparr>" 60 30]
    calculateMetrics_confidence [of "oneBlink\<lparr>isCalibrated := True\<rparr>" 60 25]
  by (simp add: oneBlink_eval)

text \<open>The claim as it was stated fails here:\<close>

theorem calculateMetrics_confidence_counterexample:
  "confidence (calculateMetrics_engine 60 25 (oneBlink\<lparr>isCalibrated := True\<rparr>)) = 8 / 10
   \<and> (8 / 10 :: real) \<noteq> 1 * (if (25 :: real) < 20 then 7 / 10
                               else if (25 :: real) < 24 then 85 / 100 else 1)
                            * (if \<not> isCalibrated (oneBlink\<lparr>isCalibrated := True\<rparr>)
                               then 1 / 2 else 1)
   \<and> confidence (calculateMetrics 60 22 oneBlink) = 43 / 100
   \<and> (43 / 100 :: real) \<noteq> 1 * (if (22 :: real) < 20 then 7 / 10
                                  else if (22 :: real) < 24 then 85 / 100 else 1)
                               * (if \<not> isCalibrated oneBlink then 1 / 2 else 1)"
  by (simp add: oneBlink_eval calculateMetrics_def calculateMetrics_engine_def Let_def
        js_round_def)

subsection \<open>C10: metrics of an empty history\<close>

text \<open>
  C10, as amended. With no recorded blink \<open>calculateMetrics\<close> returns all-zero metrics,
  confidence 0 included, whatever \<open>avgFps\<close> and the calibration are; with a recorded blink
  the confidence is at least 0.35 in \<open>BlinkDetector.ts\<close> and at least 0.28 in the engine's
  detector.
\<close>

theorem calculateMetrics_empty_history:
  "(blinkHistory d = [] \<longrightarrow>
      calculateMetrics durationSeconds avgFps d =
        \<lparr> blinkCount = 0, blinkRate = 0, incompleteBlinkCount = 0, incompleteBlinkRatio = 0,
          confidence = 0 \<rparr>
      \<and> calculateMetrics_engine durationSeconds avgFps d =
        \<lparr> blinkCount = 0, blinkRate = 0, incompleteBlinkCount = 0, incompleteBlinkRatio = 0,
          confidence = 0 \<rparr>)
   \<and> (blinkHistory d \<noteq> [] \<longrightarrow>
      35 / 100 \<le> confidence (calculateMetrics durationSeconds avgFps d)
      \<and> 28 / 100 \<le> confidence (calculateMetrics_engine durationSeconds avgFps d))"
  by (simp add: calculateMetrics_def calculateMetrics_engine_def Let_def zeroMetrics_def
        js_round_numeral_simps)

theorem calculateMetrics_empty_history_witness:
  "confidence (calculateMetrics 60 10 (newBlinkDetector DEFAULT_CONFIG)) = 0
   \<and> confidence (calculateMetrics_engine 60 30
        ((newBlinkDetector DEFAULT_CONFIG)\<lparr>isCalibrated := True\<rparr>)) = 0
   \<and> blinkHistory oneBlink \<noteq> []
   \<and> 35 / 100 \<le> confidence (calculateMetrics 60 10 oneBlink)
   \<and> 28 / 100 \<le> confidence (calculateMetrics_engine 60 10 oneBlink)"
  using calculateMetrics_empty_history [of "newBlinkDetector DEFAULT_CONFIG" 60 10]
    calculateMetrics_empty_history
      [of "(newBlinkDetector DEFAULT_CONFIG)\<lparr>isCalibrated := True\<rparr>" 60 30]
    calculateMetrics_empty_history [of oneBlink 60 10]
  by (simp add: oneBlink_eval newBlinkDetector_def)

text \<open>The claim as it was stated fails here:\<close>

theorem calculateMetrics_floor_counterexample:
  "blinkHistory oneBlink \<noteq> []
   \<and> confidence (calculateMetrics_engine 60 10 oneBlink) = 28 / 100
   \<and> \<not> (35 / 100 \<le> confidence (calculateMetrics_engine 60 10 oneBlink))"
  by (simp add: oneBlink_eval calculateMetrics_engine_def Let_def js_round_def)

section \<open>Verification of the distance estimators\<close>

subsection \<open>Calibration\<close>

lemma fold_processCalibrationFrame:
  assumes "isCalibrating e" and "calibrationStartTime e = now"
  shows "fold (\<lambda>iodPx. processCalibrationFrame now iodPx True) iods e =
           e\<lparr>iodSamples := iodSamples e @ filter (\<lambda>x. 0 < x) iods\<rparr>"
  using assms
proof (induction iods arbitrary: e)
  case Nil
  then show ?case by simp
next
  case (Cons x xs)
  have step: "processCalibrationFrame now x True e =
      (if 0 < x then e\<lparr>iodSamples := iodSamples e @ [x]\<rparr> else e)"
    using Cons.prems by (simp add: processCalibrationFrame_def CALIBRATION_DURATION_MS_def)
  show ?case
  proof (cases "0 < x")
    case True
    with step Cons.prems Cons.IH [of "e\<lparr>iodSamples := iodSamples e @ [x]\<rparr>"]
    show ?thesis by simp
  next
    case False
    with step Cons.prems Cons.IH [of e] show ?thesis by simp
  qed
qed

lemma calibrateWith_eq:
  "calibrateWith now iods e =
     finalizeCalibration
       (e\<lparr>isCalibrating := True, calibrationStartTime := now,
           iodSamples := filter (\<lambda>x. 0 < x) iods\<rparr>)"
  unfolding calibrateWith_def
  by (subst fold_processCalibrationFrame) (simp_all add: startCalibration_def)

lemma finalizeCalibration_enough:
  assumes "10 \<le> length (iodSamples e)"
  shows "finalizeCalibration e =
     e\<lparr> isCalibrating := False,
        calibrationK := Some (DEFAULT_TARGET_CM * (sort (iodSamples e) ! (length (iodSamples e) div 2))),
        storage := Some (DEFAULT_TARGET_CM * (sort (iodSamples e) ! (length (iodSamples e) div 2))) \<rparr>"
  using assms by (simp add: finalizeCalibration_def sorted_mid_def Let_def)

lemma finalizeCalibration_few:
  assumes "length (iodSamples e) < 10"
  shows "finalizeCalibration e = e\<lparr>isCalibrating := False\<rparr>"
  using assms by (simp add: finalizeCalibration_def Let_def)

lemma finalizeCalibrationLegacy_enough:
  assumes "5 \<le> length (legacySamples l)"
  shows "finalizeCalibrationLegacy targetCm now l =
     (True, l\<lparr> calibration :=
                  \<lparr> cal_k = targetCm * (sort (legacySamples l) ! (length (legacySamples l) div 2)),
                    cal_targetCm = targetCm, cal_isNormalized = True,
                    cal_iodMedian = Some (sort (legacySamples l) ! (length (legacySamples l) div 2)),
                    cal_timestamp = Some now \<rparr>,
               legacySamples := [] \<rparr>)"
  using assms by (simp add: finalizeCalibrationLegacy_def sorted_mid_def Let_def)

lemma finalizeCalibrationLegacy_few:
  assumes "length (legacySamples l) < 5"
  shows "finalizeCalibrationLegacy targetCm now l = (False, l)"
  using assms by (simp add: finalizeCalibrationLegacy_def)

lemma median_spec_odd: "odd (length xs) \<Longrightarrow> median_spec xs = sort xs ! (length xs div 2)"
  by (simp add: median_spec_def Let_def)

lemma median_spec_even:
  "even (length xs) \<Longrightarrow>
   median_spec xs = (sort xs ! (length xs div 2 - 1) + sort xs ! (length xs div 2)) / 2"
  by (simp add: median_spec_def Let_def)

subsection \<open>C2: the calibration constant\<close>

text \<open>
  C2, as amended. With at least 10 samples (engine) or 5 samples (legacy variant)
  \<open>finalizeCalibration\<close> sets \<open>k = targetCm * m\<close>, where \<open>m\<close> is the sample at index
  \<open>floor(n / 2)\<close> of the sorted samples: the median for an odd number of samples, the
  larger of the two middle samples for an even number (the target is the constant 45 in
  the engine and an argument in the legacy variant). With fewer samples it fails and leaves
  the constant unchanged. Calibrating again with the same samples after a reset gives the
  same \<open>k\<close>.
\<close>

theorem finalizeCalibration_constant:
  "(10 \<le> length (iodSamples e) \<longrightarrow>
      calibrationK (finalizeCalibration e) =
        Some (DEFAULT_TARGET_CM * (sort (iodSamples e) ! (length (iodSamples e) div 2)))
      \<and> storage (finalizeCalibration e) = calibrationK (finalizeCalibration e))
   \<and> (length (iodSamples e) < 10 \<longrightarrow>
      calibrationK (finalizeCalibration e) = calibrationK e
      \<and> storage (finalizeCalibration e) = storage e)
   \<and> (5 \<le> length (legacySamples l) \<longrightarrow>
      fst (finalizeCalibrationLegacy targetCm now l)
      \<and> cal_k (calibration (snd (finalizeCalibrationLegacy targetCm now l))) =
          targetCm * (sort (legacySamples l) ! (length (legacySamples l) div 2)))
   \<and> (length (legacySamples l) < 5 \<longrightarrow> finalizeCalibrationLegacy targetCm now l = (False, l))
   \<and> (odd (length xs) \<longrightarrow> sort xs ! (length xs div 2) = median_spec xs)
   \<and> (even (length xs) \<longrightarrow>
      median_spec xs = (sort xs ! (length xs div 2 - 1) + sort xs ! (length xs div 2)) / 2)
   \<and> (10 \<le> length (filter (\<lambda>x. 0 < x) iods) \<longrightarrow>
      calibrationK (calibrateWith t2 iods (resetCalibration (calibrateWith t1 iods e)))
        = calibrationK (calibrateWith t1 iods e))"
  by (simp add: finalizeCalibration_enough finalizeCalibration_few
        finalizeCalibrationLegacy_enough finalizeCalibrationLegacy_few
        median_spec_odd median_spec_even calibrateWith_eq)

theorem finalizeCalibration_constant_witness:
  "calibrationK (calibrateWith 0 calibSamples12 (newDistanceEstimator None)) = Some 9270
   \<and> calibrationK (calibrateWith 0 [200, 202, 204] (newDistanceEstimator (Some 9000))) = Some 9000
   \<and> calibrationK (calibrateWith 7 calibSamples12
        (resetCalibration (calibrateWith 0 calibSamples12 (newDistanceEstimator None))))
      = Some 9270
   \<and> cal_k (calibration (snd (finalizeCalibrationLegacy 50 0
        (fold addCalibrationSample [200, 202, 204, 206, 208] newLegacyEstimator)))) = 10200
   \<and> finalizeCalibrationLegacy 50 0 (fold addCalibrationSample [200, 202] newLegacyEstimator)
      = (False, fold addCalibrationSample [200, 202] newLegacyEstimator)
   \<and> median_spec [200, 202, 204, 206, 208] = 204
   \<and> median_spec calibSamples12 = 205"
proof -
  define e12 where "e12 = (newDistanceEstimator None)\<lparr>isCalibrating := True,
     calibrationStartTime := 0, iodSamples := calibSamples12\<rparr>"
  define e3 where "e3 = (newDistanceEstimator (Some 9000))\<lparr>isCalibrating := True,
     calibrationStartTime := 0, iodSamples := [200, 202, 204]\<rparr>"
  have s12: "sort calibSamples12 = [200, 200, 202, 202, 204, 204, 206, 206, 208, 208, 210, 210]"
    by (simp add: calibSamples12_def)
  have pos: "filter (\<lambda>x. 0 < x) calibSamples12 = calibSamples12"
    by (simp add: calibSamples12_def)
  have a: "calibrationK (calibrateWith 0 calibSamples12 (newDistanceEstimator None)) = Some 9270"
    using finalizeCalibration_constant [where e = e12]
    by (simp add: calibrateWith_eq pos e12_def s12 DEFAULT_TARGET_CM_def)
       (simp add: calibSamples12_def)
  have b: "calibrationK (calibrateWith 0 [200, 202, 204] (newDistanceEstimator (Some 9000)))
             = Some 9000"
    using finalizeCalibration_constant [where e = e3]
    by (simp add: calibrateWith_eq e3_def newDistanceEstimator_def loadCalibration_def)
  have c: "calibrationK (calibrateWith 7 calibSamples12
        (resetCalibration (calibrateWith 0 calibSamples12 (newDistanceEstimator None))))
      = Some 9270"
    using finalizeCalibration_constant
            [where iods = calibSamples12 and ?t2.0 = 7 and ?t1.0 = 0
               and e = "newDistanceEstimator None"] a
    by (simp add: pos) (simp add: calibSamples12_def)
  define l5 where "l5 = fold addCalibrationSample [200, 202, 204, 206, 208] newLegacyEstimator"
  define l2 where "l2 = fold addCalibrationSample [200, 202] newLegacyEstimator"
  have l5s: "legacySamples l5 = [200, 202, 204, 206, 208]"
    by (simp add: l5_def addCalibrationSample_def newLegacyEstimator_def)
  have l2s: "legacySamples l2 = [200, 202]"
    by (simp add: l2_def addCalibrationSample_def newLegacyEstimator_def)
  have d: "cal_k (calibration (snd (finalizeCalibrationLegacy 50 0 l5))) = 10200"
    using finalizeCalibration_constant [where l = l5 and targetCm = 50 and now = 0]
    by (simp add: l5s)
  have e: "finalizeCalibrationLegacy 50 0 l2 = (False, l2)"
    using finalizeCalibration_constant [where l = l2 and targetCm = 50 and now = 0]
    by (simp add: l2s)
  have f: "median_spec [200, 202, 204, 206, 208] = 204"
    using finalizeCalibration_constant [where xs = "[200, 202, 204, 206, 208]"] by simp
  have g: "median_spec calibSamples12 = 205"
    using finalizeCalibration_constant [where xs = calibSamples12] s12
    by (simp add: calibSamples12_def)
  from a b c d e f g show ?thesis unfolding l5_def l2_def by blast
qed

text \<open>The claim as it was stated fails here:\<close>

theorem finalizeCalibration_median_counterexample:
  "calibrationK (calibrateWith 0 calibSamples12 (newDistanceEstimator None)) = Some 9270
   \<and> DEFAULT_TARGET_CM * median_spec calibSamples12 = 9225
   \<and> cal_k (calibration (snd (finalizeCalibrationLegacy 45 0
        (fold addCalibrationSample calibSamples12 newLegacyEstimator)))) = 9270"
  by (simp add: calibrateWith_eq calibSamples12_def finalizeCalibration_def sorted_mid_def
        Let_def DEFAULT_TARGET_CM_def median_spec_def newDistanceEstimator_def
        loadCalibration_def finalizeCalibrationLegacy_def addCalibrationSample_def
        newLegacyEstimator_def)

subsection \<open>Engine estimator\<close>

lemma estimate_usable:
  assumes "264 \<le> length lms"
  shows "dbg_rawCm (debug (fst (estimate w (Some lms) e))) =
           js_div (case truthyK (calibrationK e) of Some kv \<Rightarrow> kv | None \<Rightarrow> 8500)
             (hypot (px (lms ! 263) - px (lms ! 33)) (py (lms ! 263) - py (lms ! 33)) * w)"
    and "lastSmoothedCm (snd (estimate w (Some lms) e)) =
           Some (case lastSmoothedCm e of
                   None \<Rightarrow> dbg_rawCm (debug (fst (estimate w (Some lms) e)))
                 | Some l \<Rightarrow>
                     js_add (js_scale (2 / 10) (dbg_rawCm (debug (fst (estimate w (Some lms) e)))))
                       (js_scale (8 / 10) l))"
    and "calibrationK (snd (estimate w (Some lms) e)) = calibrationK e"
  using assms
  by (simp_all add: estimate_def Let_def ALPHA_def split: option.splits)

lemma estimate_bucket:
  assumes "264 \<le> length lms" and "lastSmoothedCm (snd (estimate w (Some lms) e)) = Some s"
  shows "bucket (fst (estimate w (Some lms) e)) =
           (if js_lt s (Fin 15) \<or> js_gt s (Fin 120) then UNKNOWN
            else if js_lt s (Fin 30) then NEAR
            else if js_gt s (Fin 60) then FAR else OK)"
    and "distConfidence (fst (estimate w (Some lms) e)) =
           (if js_lt s (Fin 15) \<or> js_gt s (Fin 120) then 3 / 10 else 1)"
    and "estCm (fst (estimate w (Some lms) e)) = js_div_by (js_round_num (js_scale 10 s)) 10"
  using assms
  by (auto simp add: estimate_def Let_def)

lemma estimate_unusable:
  assumes "landmarks = None \<or> (\<exists>lms. landmarks = Some lms \<and> length lms < 264)"
  shows "estimate w landmarks e = (createUnknownResult [''NO_LANDMARKS''] e, e)"
  using assms by (auto simp add: estimate_def)

text \<open>The smoothed values of usable frames with finite raw distances follow \<open>ema\<close>.\<close>

lemma smoothedValues_ema:
  assumes "lastSmoothedCm e = Some (Fin p)"
    and "rawValues fs e = map Fin raws"
    and "list_all usableFrame fs"
  shows "smoothedValues fs e = map (Some \<circ> Fin) (ema p raws)"
  using assms
proof (induction fs arbitrary: e p raws)
  case Nil
  then show ?case by (simp add: rawValues_def)
next
  case (Cons f fs)
  obtain w lms where f: "f = (w, Some lms)" and len: "264 \<le> length lms"
    using Cons.prems(3) by (cases f) (auto simp add: usableFrame_def split: option.splits)
  obtain r e1 where est: "estimate w (Some lms) e = (r, e1)" by (cases "estimate w (Some lms) e")
  obtain rs e2 where ests: "estimates fs e1 = (rs, e2)" by (cases "estimates fs e1")
  from Cons.prems(2) obtain x xs where raws: "raws = x # xs"
    and x: "dbg_rawCm (debug r) = Fin x"
    and xs: "rawValues fs e1 = map Fin xs"
    by (cases raws) (auto simp add: f est ests rawValues_def)
  have sm: "lastSmoothedCm e1 = Some (Fin (2 / 10 * x + 8 / 10 * p))"
    using estimate_usable(2) [OF len, of w e] est x Cons.prems(1)
    by (simp add: js_scale_def)
  have "smoothedValues fs e1 = map (Some \<circ> Fin) (ema (2 / 10 * x + 8 / 10 * p) xs)"
    using sm xs Cons.prems(3) by (intro Cons.IH) (simp_all add: f)
  then show ?case by (simp add: f est raws sm)
qed

lemma smoothedValues_ema_seq:
  assumes "lastSmoothedCm e = None"
    and "rawValues fs e = map Fin raws"
    and "list_all usableFrame fs"
  shows "smoothedValues fs e = map (Some \<circ> Fin) (ema_seq raws)"
proof (cases fs)
  case Nil
  with assms(2) show ?thesis by (simp add: ema_seq_def rawValues_def)
next
  case (Cons f fs')
  obtain w lms where f: "f = (w, Some lms)" and len: "264 \<le> length lms"
    using assms(3) Cons by (cases f) (auto simp add: usableFrame_def split: option.splits)
  obtain r e1 where est: "estimate w (Some lms) e = (r, e1)" by (cases "estimate w (Some lms) e")
  obtain rs e2 where ests: "estimates fs' e1 = (rs, e2)" by (cases "estimates fs' e1")
  from assms(2) obtain x xs where raws: "raws = x # xs"
    and x: "dbg_rawCm (debug r) = Fin x"
    and xs: "rawValues fs' e1 = map Fin xs"
    by (cases raws) (auto simp add: Cons f est ests rawValues_def)
  have sm: "lastSmoothedCm e1 = Some (Fin x)"
    using estimate_usable(2) [OF len, of w e] est x assms(1) by simp
  have "smoothedValues fs' e1 = map (Some \<circ> Fin) (ema x xs)"
    using sm xs assms(3) by (intro smoothedValues_ema) (simp_all add: Cons f)
  then show ?thesis by (simp add: Cons f est raws sm ema_seq_def)
qed

lemma rawValues_frames:
  assumes "list_all usableFrame fs"
  shows "rawValues fs e =
           map (\<lambda>f. js_div (case truthyK (calibrationK e) of Some kv \<Rightarrow> kv | None \<Rightarrow> 8500)
                     (hypot (px (the (snd f) ! 263) - px (the (snd f) ! 33))
                            (py (the (snd f) ! 263) - py (the (snd f) ! 33)) * fst f)) fs"
  using assms
proof (induction fs arbitrary: e)
  case Nil
  then show ?case by (simp add: rawValues_def)
next
  case (Cons f fs)
  obtain w lms where f: "f = (w, Some lms)" and len: "264 \<le> length lms"
    using Cons.prems by (cases f) (auto simp add: usableFrame_def split: option.splits)
  obtain r e1 where est: "estimate w (Some lms) e = (r, e1)" by (cases "estimate w (Some lms) e")
  have k: "calibrationK e1 = calibrationK e"
    using estimate_usable(3) [OF len, of w e] est by simp
  have r: "dbg_rawCm (debug r) =
      js_div (case truthyK (calibrationK e) of Some kv \<Rightarrow> kv | None \<Rightarrow> 8500)
        (hypot (px (lms ! 263) - px (lms ! 33)) (py (lms ! 263) - py (lms ! 33)) * w)"
    using estimate_usable(1) [OF len, of w e] est by simp
  have "rawValues fs e1 =
           map (\<lambda>f. js_div (case truthyK (calibrationK e1) of Some kv \<Rightarrow> kv | None \<Rightarrow> 8500)
                     (hypot (px (the (snd f) ! 263) - px (the (snd f) ! 33))
                            (py (the (snd f) ! 263) - py (the (snd f) ! 33)) * fst f)) fs"
    using Cons.prems by (intro Cons.IH) simp
  then show ?case
    by (simp add: f est r k rawValues_def case_prod_beta)
qed

lemma faceWithIOD_facts:
  "length (faceWithIOD dx) = 478"
  "faceWithIOD dx ! 33 = origin"
  "faceWithIOD dx ! 263 = \<lparr>px = dx, py = 0\<rparr>"
  by (simp_all add: faceWithIOD_def)

lemma replicate_11: "replicate 11 x = [x, x, x, x, x, x, x, x, x, x, x]"
  by (simp add: eval_nat_numeral)

lemma stepFrames_raw: "rawValues stepFrames (newDistanceEstimator None) = map Fin stepRaws"
proof -
  have "list_all usableFrame stepFrames"
    by (simp add: stepFrames_def usableFrame_def faceWithIOD_facts list_all_iff)
  then show ?thesis
    by (subst rawValues_frames)
       (simp_all add: stepFrames_def stepRaws_def replicate_11 faceWithIOD_facts origin_def
          hypot_0_right newDistanceEstimator_def loadCalibration_def truthyK_def js_div_def)
qed

lemma variance_step: "variance stepRaws < variance (ema_seq stepRaws)"
  by (simp add: stepRaws_def replicate_11 ema_seq_def variance_def mean_def)

subsection \<open>C5: smoothing of the distance\<close>

text \<open>
  C5, as amended. The smoothed value of a usable frame is the raw value when there is no
  previous smoothed value and \<open>0.2 * raw + 0.8 * previousSmoothed\<close> otherwise; along a
  sequence of frames with finite raw distances, from a cold state, the smoothed values are
  the exponential moving average of the raw values; \<open>resetCalibration\<close> clears the
  smoothing state, so that the smoothed value of the next estimate is its raw value.
  Nothing is stated about the variance of the smoothed sequence. (The recurrence is
  evaluated in exact arithmetic; the source rounds each step to a double.)
\<close>

theorem ema_smoothing:
  "(264 \<le> length lms \<longrightarrow>
      lastSmoothedCm (snd (estimate w (Some lms) e)) =
        Some (case lastSmoothedCm e of
                None \<Rightarrow> dbg_rawCm (debug (fst (estimate w (Some lms) e)))
              | Some l \<Rightarrow>
                  js_add (js_scale (2 / 10) (dbg_rawCm (debug (fst (estimate w (Some lms) e)))))
                    (js_scale (8 / 10) l)))
   \<and> (lastSmoothedCm e = None \<and> list_all usableFrame fs \<and> rawValues fs e = map Fin raws \<longrightarrow>
      smoothedValues fs e = map (Some \<circ> Fin) (ema_seq raws))
   \<and> lastSmoothedCm (resetCalibration e) = None
   \<and> (264 \<le> length lms \<longrightarrow>
      lastSmoothedCm (snd (estimate w (Some lms) (resetCalibration e))) =
        Some (dbg_rawCm (debug (fst (estimate w (Some lms) (resetCalibration e))))))"
proof -
  have reset: "lastSmoothedCm (resetCalibration e) = None"
    by (simp add: resetCalibration_def)
  have "264 \<le> length lms \<Longrightarrow>
      lastSmoothedCm (snd (estimate w (Some lms) (resetCalibration e))) =
        Some (dbg_rawCm (debug (fst (estimate w (Some lms) (resetCalibration e)))))"
    using estimate_usable(2) [of lms w "resetCalibration e"] by (simp add: reset)
  then show ?thesis
    using estimate_usable(2) [of lms w e] smoothedValues_ema_seq [of e fs raws] reset
    by blast
qed

theorem ema_smoothing_witness:
  "smoothedValues stepFrames (newDistanceEstimator None) = map (Some \<circ> Fin) (ema_seq stepRaws)
   \<and> ema_seq [100, 50, 50] = [100, 90, 82]
   \<and> lastSmoothedCm (snd (estimate 1000 (Some (faceWithIOD (85 / 1000)))
        (resetCalibration (snd (estimate 1000 (Some (faceWithIOD (170 / 1000)))
           (newDistanceEstimator (Some 9225))))))) = Some (Fin 100)"
proof -
  have cold: "lastSmoothedCm (newDistanceEstimator None) = None"
    by (simp add: newDistanceEstimator_def loadCalibration_def)
  have usable: "list_all usableFrame stepFrames"
    by (simp add: stepFrames_def usableFrame_def faceWithIOD_facts list_all_iff)
  have a: "smoothedValues stepFrames (newDistanceEstimator None)
            = map (Some \<circ> Fin) (ema_seq stepRaws)"
    using ema_smoothing [where e = "newDistanceEstimator None" and fs = stepFrames
        and raws = stepRaws] cold usable stepFrames_raw
    by blast
  have b: "ema_seq [100, 50, 50] = [100, 90, 82]"
    by (simp add: ema_seq_def)
  define e1 where "e1 = snd (estimate 1000 (Some (faceWithIOD (170 / 1000)))
           (newDistanceEstimator (Some 9225)))"
  have len: "264 \<le> length (faceWithIOD (85 / 1000))" by (simp add: faceWithIOD_facts)
  have "dbg_rawCm (debug (fst (estimate 1000 (Some (faceWithIOD (85 / 1000)))
          (resetCalibration e1)))) = Fin 100"
    using estimate_usable(1) [OF len, of 1000 "resetCalibration e1"]
    by (simp add: faceWithIOD_facts origin_def hypot_0_right resetCalibration_def truthyK_def
          js_div_def)
  then have d: "lastSmoothedCm (snd (estimate 1000 (Some (faceWithIOD (85 / 1000)))
        (resetCalibration e1))) = Some (Fin 100)"
    using ema_smoothing [where lms = "faceWithIOD (85 / 1000)" and w = 1000 and e = e1] len
    by simp
  from a b d show ?thesis unfolding e1_def by blast
qed

text \<open>The claim as it was stated fails here:\<close>

theorem ema_variance_counterexample:
  "rawValues stepFrames (newDistanceEstimator None) = map Fin stepRaws
   \<and> smoothedValues stepFrames (newDistanceEstimator None) = map (Some \<circ> Fin) (ema_seq stepRaws)
   \<and> variance stepRaws < variance (ema_seq stepRaws)"
proof -
  have cold: "lastSmoothedCm (newDistanceEstimator None) = None"
    by (simp add: newDistanceEstimator_def loadCalibration_def)
  have usable: "list_all usableFrame stepFrames"
    by (simp add: stepFrames_def usableFrame_def faceWithIOD_facts list_all_iff)
  show ?thesis
    using smoothedValues_ema_seq [OF cold stepFrames_raw usable] stepFrames_raw variance_step
    by blast
qed

subsection \<open>Legacy estimator\<close>

lemma smoothValue_mean:
  "fst (smoothValue val l) =
     (let h = (if length (cmHistory l) \<ge> 5 then tl (cmHistory l @ [val])
               else cmHistory l @ [val])
      in sum_list h / real (length h))"
proof -
  have "foldl (\<lambda>a b. a + b) a xs = a + sum_list xs" for a :: real and xs
    by (induction xs arbitrary: a) simp_all
  then show ?thesis
    by (simp add: smoothValue_def Let_def sum_list_reduce_def)
qed

lemma estimateDistance_usable:
  assumes "478 \<le> length lms"
    and "sqrt ((px (lms ! 263) - px (lms ! 33)) * (px (lms ! 263) - px (lms ! 33))
             + (py (lms ! 263) - py (lms ! 33)) * (py (lms ! 263) - py (lms ! 33))) \<noteq> 0"
  shows "legacyBucket (fst (estimateDistance (Some lms) l)) =
           classifyBucket (estimatedDistanceCm (fst (estimateDistance (Some lms) l)))"
    and "legacyConfidence (fst (estimateDistance (Some lms) l)) = 8 / 10"
    and "estimatedDistanceCm (fst (estimateDistance (Some lms) l)) =
           fst (smoothValue
             ((if cal_isNormalized (calibration l) then cal_k (calibration l) else 5)
               / sqrt ((px (lms ! 263) - px (lms ! 33)) * (px (lms ! 263) - px (lms ! 33))
                     + (py (lms ! 263) - py (lms ! 33)) * (py (lms ! 263) - py (lms ! 33)))) l)"
  using assms
  by (auto simp add: estimateDistance_def Let_def case_prod_beta)

lemma sqrt_49th: "sqrt (1 / 49) = 1 / 7"
  by (rule real_sqrt_unique) (simp_all add: power2_eq_square)

lemma legacy_35:
  "estimatedDistanceCm (fst (estimateDistance (Some (faceWithIOD (1 / 7))) newLegacyEstimator)) = 35"
  "legacyBucket (fst (estimateDistance (Some (faceWithIOD (1 / 7))) newLegacyEstimator)) = NEAR"
  by (simp_all add: estimateDistance_def Let_def case_prod_beta faceWithIOD_facts origin_def
        sqrt_49th smoothValue_def sum_list_reduce_def newLegacyEstimator_def classifyBucket_def)

subsection \<open>C6: distance buckets\<close>

text \<open>
  C6, as amended. In the engine's estimator a usable frame with smoothed distance \<open>s\<close> gets
  confidence 0.3 and bucket UNKNOWN when \<open>s\<close> is below 15 or above 120 (an infinite \<open>s\<close>
  included), and otherwise confidence 1 and bucket NEAR when \<open>s < 30\<close>, FAR when \<open>s > 60\<close>,
  OK in between. The legacy variant classifies its smoothed distance with the thresholds 40
  and 75, has no plausible range and reports a frame with landmarks and non-zero eye
  distance with confidence 0.8.
\<close>

theorem distance_bucket:
  "(264 \<le> length lms \<and> lastSmoothedCm (snd (estimate w (Some lms) e)) = Some (Fin s) \<longrightarrow>
      bucket (fst (estimate w (Some lms) e)) =
        (if s < 15 \<or> 120 < s then UNKNOWN
         else if s < 30 then NEAR else if 60 < s then FAR else OK)
      \<and> distConfidence (fst (estimate w (Some lms) e)) = (if s < 15 \<or> 120 < s then 3 / 10 else 1))
   \<and> (264 \<le> length lms \<and> lastSmoothedCm (snd (estimate w (Some lms) e)) = Some PosInf \<longrightarrow>
      bucket (fst (estimate w (Some lms) e)) = UNKNOWN
      \<and> distConfidence (fst (estimate w (Some lms) e)) = 3 / 10)
   \<and> (478 \<le> length lms
       \<and> sqrt ((px (lms ! 263) - px (lms ! 33)) * (px (lms ! 263) - px (lms ! 33))
              + (py (lms ! 263) - py (lms ! 33)) * (py (lms ! 263) - py (lms ! 33))) \<noteq> 0 \<longrightarrow>
      legacyBucket (fst (estimateDistance (Some lms) l)) =
        (if estimatedDistanceCm (fst (estimateDistance (Some lms) l)) < 40 then NEAR
         else if 75 < estimatedDistanceCm (fst (estimateDistance (Some lms) l)) then FAR
         else OK)
      \<and> legacyConfidence (fst (estimateDistance (Some lms) l)) = 8 / 10)
   \<and> classifyBucket cm = (if cm < 40 then NEAR else if 75 < cm then FAR else OK)"
  using estimate_bucket(1,2) [of lms w e "Fin s"] estimate_bucket(1,2) [of lms w e PosInf]
    estimateDistance_usable(1,2) [of lms l]
  by (simp add: js_gt_def classifyBucket_def)

theorem distance_bucket_witness:
  "bucket (fst (estimate 1000 (Some (faceWithIOD (170 / 1000))) (newDistanceEstimator None))) = OK
   \<and> bucket (fst (estimate 1000 (Some (faceWithIOD (340 / 1000))) (newDistanceEstimator None)))
       = NEAR
   \<and> bucket (fst (estimate 1000 (Some (faceWithIOD (85 / 1000))) (newDistanceEstimator None)))
       = FAR
   \<and> bucket (fst (estimate 1000 (Some (faceWithIOD (850 / 1000))) (newDistanceEstimator None)))
       = UNKNOWN
   \<and> distConfidence
        (fst (estimate 1000 (Some (faceWithIOD (850 / 1000))) (newDistanceEstimator None)))
       = 3 / 10
   \<and> bucket (fst (estimate 0 (Some (faceWithIOD (170 / 1000))) (newDistanceEstimator None)))
       = UNKNOWN
   \<and> legacyBucket (fst (estimateDistance (Some (faceWithIOD (1 / 7))) newLegacyEstimator))
       = NEAR"
proof -
  define e0 where "e0 = newDistanceEstimator None"
  have cold: "lastSmoothedCm e0 = None" and k: "truthyK (calibrationK e0) = None"
    by (simp_all add: e0_def newDistanceEstimator_def loadCalibration_def truthyK_def)
  have sm: "lastSmoothedCm (snd (estimate w (Some (faceWithIOD dx)) e0))
              = Some (js_div 8500 (\<bar>dx\<bar> * w))" for w dx
    using estimate_usable(1,2) [of "faceWithIOD dx" w e0]
    by (simp add: faceWithIOD_facts origin_def hypot_0_right cold k)
  have a: "bucket (fst (estimate 1000 (Some (faceWithIOD (170 / 1000))) e0)) = OK"
    using distance_bucket [where lms = "faceWithIOD (170 / 1000)" and w = 1000 and e = e0
        and s = 50] sm [of 1000 "170 / 1000"]
    by (simp add: faceWithIOD_facts js_div_def)
  have b: "bucket (fst (estimate 1000 (Some (faceWithIOD (340 / 1000))) e0)) = NEAR"
    using distance_bucket [where lms = "faceWithIOD (340 / 1000)" and w = 1000 and e = e0
        and s = 25] sm [of 1000 "340 / 1000"]
    by (simp add: faceWithIOD_facts js_div_def)
  have c: "bucket (fst (estimate 1000 (Some (faceWithIOD (85 / 1000))) e0)) = FAR"
    using distance_bucket [where lms = "faceWithIOD (85 / 1000)" and w = 1000 and e = e0
        and s = 100] sm [of 1000 "85 / 1000"]
    by (simp add: faceWithIOD_facts js_div_def)
  have d: "bucket (fst (estimate 1000 (Some (faceWithIOD (850 / 1000))) e0)) = UNKNOWN
      \<and> distConfidence (fst (estimate 1000 (Some (faceWithIOD (850 / 1000))) e0)) = 3 / 10"
    using distance_bucket [where lms = "faceWithIOD (850 / 1000)" and w = 1000 and e = e0
        and s = 10] sm [of 1000 "850 / 1000"]
    by (simp add: faceWithIOD_facts js_div_def)
  have e: "bucket (fst (estimate 0 (Some (faceWithIOD (170 / 1000))) e0)) = UNKNOWN"
    using distance_bucket [where lms = "faceWithIOD (170 / 1000)" and w = 0 and e = e0]
      sm [of 0 "170 / 1000"]
    by (simp add: faceWithIOD_facts js_div_def)
  have f: "legacyBucket (fst (estimateDistance (Some (faceWithIOD (1 / 7))) newLegacyEstimator))
       = NEAR"
    using distance_bucket [where lms = "faceWithIOD (1 / 7)" and l = newLegacyEstimator]
      legacy_35(1)
    by (simp add: faceWithIOD_facts origin_def sqrt_49th)
  from a b c d e f show ?thesis unfolding e0_def by blast
qed

text \<open>The claim as it was stated fails here:\<close>

theorem legacy_bucket_counterexample:
  "estimatedDistanceCm (fst (estimateDistance (Some (faceWithIOD (1 / 7))) newLegacyEstimator))
     = 35
   \<and> legacyBucket (fst (estimateDistance (Some (faceWithIOD (1 / 7))) newLegacyEstimator))
       = NEAR
   \<and> \<not> (35 < (30 :: real))
   \<and> classifyBucket 70 = OK \<and> (60 :: real) < 70"
  using legacy_35 by (simp add: classifyBucket_def)

section \<open>Verification of the quality monitor\<close>

lemma confidence_step:
  assumes "confidence_is_product fl c" and "flag_multiplier f = k" and "0 \<le> k" and "k \<le> 1"
  shows "confidence_is_product (if b then fl @ [f] else fl) (if b then c * k else c)"
proof (cases b)
  case False
  with assms(1) show ?thesis by simp
next
  case True
  from assms have "0 \<le> c * k" and "c * k \<le> 1"
    by (simp_all add: confidence_is_product_def mult_le_one)
  with assms True show ?thesis by (simp add: confidence_is_product_def)
qed

lemma assessQuality_noFace:
  assumes "noFace lr"
  shows "assessQuality v lr ts now m =
     (Inr \<lparr> flags =
               (if now - startTime m < warmupDuration (qconfig m) then [MODEL_WARMING_UP] else [])
               @ (if fst (calculateFPS ts m) < lowFpsThreshold (qconfig m)
                     \<and> fst (calculateFPS ts m) > 0 then [LOW_FPS] else [])
               @ [FACE_NOT_FOUND],
             qualityConfidence = 0,
             details = \<lparr> fps = Some (fst (calculateFPS ts m)), faceCount = None,
                         brightness = None, poseAngles = None \<rparr> \<rparr>,
      snd (calculateFPS ts m))"
  using assms by (simp add: assessQuality_def Let_def case_prod_beta)

lemma assessQuality_face:
  assumes nf: "\<not> noFace lr"
  shows "(\<exists>e. fst (assessQuality v lr ts now m) = Inl e)
         \<or> (\<exists>q. fst (assessQuality v lr ts now m) = Inr q
                \<and> confidence_is_product (flags q) (qualityConfidence q)
                \<and> FACE_NOT_FOUND \<notin> set (flags q)
                \<and> brightness (details q) = Some (estimateBrightness v))"
proof -
  define faces where "faces = the (faceLandmarks (the lr))"
  define warm where "warm = (now - startTime m < warmupDuration (qconfig m))"
  define fpsv where "fpsv = fst (calculateFPS ts m)"
  define lowFps where "lowFps = (fpsv < lowFpsThreshold (qconfig m) \<and> fpsv > 0)"
  define multi where "multi = (length faces > 1)"
  define lowLight where "lowLight = (estimateBrightness v < lowLightThreshold (qconfig m))"
  define flags0 where "flags0 = (if warm then [MODEL_WARMING_UP] else [])"
  define c0 :: real where "c0 = (if warm then 1 * (1 / 2) else 1)"
  define flags1 where "flags1 = (if lowFps then flags0 @ [LOW_FPS] else flags0)"
  define c1 where "c1 = (if lowFps then c0 * (7 / 10) else c0)"
  define flags2 where "flags2 = (if multi then flags1 @ [MULTI_FACE_DETECTED] else flags1)"
  define c2 where "c2 = (if multi then c1 * (6 / 10) else c1)"
  define flags3 where "flags3 = (if lowLight then flags2 @ [LOW_LIGHT] else flags2)"
  define c3 where "c3 = (if lowLight then c2 * (8 / 10) else c2)"
  have p0: "confidence_is_product flags0 c0"
    by (simp add: flags0_def c0_def confidence_is_product_def flag_multiplier_def)
  have p1: "confidence_is_product flags1 c1"
    unfolding flags1_def c1_def
    by (rule confidence_step [OF p0]) (simp_all add: flag_multiplier_def)
  have p2: "confidence_is_product flags2 c2"
    unfolding flags2_def c2_def
    by (rule confidence_step [OF p1]) (simp_all add: flag_multiplier_def)
  have p3: "confidence_is_product flags3 c3"
    unfolding flags3_def c3_def
    by (rule confidence_step [OF p2]) (simp_all add: flag_multiplier_def)
  have n3: "FACE_NOT_FOUND \<notin> set flags3"
    by (simp add: flags3_def flags2_def flags1_def flags0_def)
  show ?thesis
  proof (cases "calculatePoseAngles faces 0")
    case (Inl err)
    then have "fst (assessQuality v lr ts now m) = Inl err"
      using nf by (simp add: assessQuality_def Let_def case_prod_beta faces_def)
    then show ?thesis by blast
  next
    case (Inr pose)
    define unstable where
      "unstable = (js_gt (js_abs (yaw pose)) (Fin (poseYawThreshold (qconfig m)))
                   \<or> \<bar>pitch pose\<bar> > posePitchThreshold (qconfig m)
                   \<or> \<bar>roll pose\<bar> > poseRollThreshold (qconfig m))"
    define flags4 where "flags4 = (if unstable then flags3 @ [POSE_UNSTABLE] else flags3)"
    define c4 where "c4 = (if unstable then c3 * (7 / 10) else c3)"
    have p4: "confidence_is_product flags4 c4"
      unfolding flags4_def c4_def
      by (rule confidence_step [OF p3]) (simp_all add: flag_multiplier_def)
    have n4: "FACE_NOT_FOUND \<notin> set flags4" using n3 by (simp add: flags4_def)
    show ?thesis
    proof (cases "defined_points (fst (extractEyeLandmarks faces 0))")
      case (Inl err)
      then have "fst (assessQuality v lr ts now m) = Inl TypeError"
        using nf Inr by (simp add: assessQuality_def Let_def case_prod_beta faces_def)
      then show ?thesis by blast
    next
      case leftE: (Inr leftE)
      show ?thesis
      proof (cases "defined_points (snd (extractEyeLandmarks faces 0))")
        case (Inl err)
        then have "fst (assessQuality v lr ts now m) = Inl TypeError"
          using nf Inr leftE by (simp add: assessQuality_def Let_def case_prod_beta faces_def)
        then show ?thesis by blast
      next
        case rightE: (Inr rightE)
        define occluded where "occluded = (detectEyeOcclusion leftE rightE > 3 / 10)"
        define glare where "glare = detectGlassesGlare v faces"
        define flags5 where "flags5 = (if occluded then flags4 @ [EYE_OCCLUDED] else flags4)"
        define c5 where "c5 = (if occluded then c4 * (6 / 10) else c4)"
        define flags6 where
          "flags6 = (if glare then flags5 @ [GLASSES_GLARE_SUSPECTED] else flags5)"
        define c6 where "c6 = (if glare then c5 * (85 / 100) else c5)"
        have p5: "confidence_is_product flags5 c5"
          unfolding flags5_def c5_def
          by (rule confidence_step [OF p4]) (simp_all add: flag_multiplier_def)
        have p6: "confidence_is_product flags6 c6"
          unfolding flags6_def c6_def
          by (rule confidence_step [OF p5]) (simp_all add: flag_multiplier_def)
        have n6: "FACE_NOT_FOUND \<notin> set flags6" using n4 by (simp add: flags6_def flags5_def)
        have "fst (assessQuality v lr ts now m) =
            Inr \<lparr> flags = flags6, qualityConfidence = c6,
                  details = \<lparr> fps = Some fpsv,
                              faceCount = (if multi then Some (length faces) else None),
                              brightness = Some (estimateBrightness v),
                              poseAngles = Some pose \<rparr> \<rparr>"
          using nf Inr leftE rightE
          unfolding flags6_def c6_def flags5_def c5_def flags4_def c4_def flags3_def c3_def
            flags2_def c2_def flags1_def c1_def flags0_def c0_def glare_def occluded_def
            unstable_def lowLight_def multi_def lowFps_def fpsv_def warm_def
          by (simp add: assessQuality_def Let_def case_prod_beta faces_def)
        with p6 n6 show ?thesis by simp
      qed
    qed
  qed
qed

lemma collapsed_eval:
  "calculatePoseAngles [collapsedFace] 0 = Inr \<lparr> yaw = Fin 0, pitch = 0, roll = 0 \<rparr>"
  "extractEyeLandmarks [collapsedFace] 0 =
     ([Some origin, Some origin, Some origin, Some origin, Some origin, Some origin],
      [Some origin, Some origin, Some origin, Some origin, Some origin, Some origin])"
  "detectEyeOcclusion [origin, origin, origin, origin, origin, origin]
     [origin, origin, origin, origin, origin, origin] = 8 / 10"
  by (simp_all add: calculatePoseAngles_def extractEyeLandmarks_def landmark_at_def
        collapsedFace_def js_div_def js_scale_def detectEyeOcclusion_def
        calculateLandmarkSpread_def list_max_def list_min_def origin_def Let_def)

lemma assessQuality_collapsed:
  "fst (assessQuality plainVideo (Some \<lparr>faceLandmarks = Some [collapsedFace]\<rparr>) 16 1000
     (newQualityMonitor DEFAULT_QUALITY_CONFIG 0)) =
   Inr \<lparr> flags = [MODEL_WARMING_UP, EYE_OCCLUDED], qualityConfidence = 3 / 10,
         details = \<lparr> fps = Some 0, faceCount = None, brightness = Some 128,
                     poseAngles = Some \<lparr> yaw = Fin 0, pitch = 0, roll = 0 \<rparr> \<rparr> \<rparr>"
  "fst (assessQuality darkVideo (Some \<lparr>faceLandmarks = Some [collapsedFace]\<rparr>) 16 3000
     (newQualityMonitor DEFAULT_QUALITY_CONFIG 0)) =
   Inr \<lparr> flags = [LOW_LIGHT, EYE_OCCLUDED], qualityConfidence = 48 / 100,
         details = \<lparr> fps = Some 0, faceCount = None, brightness = Some 0,
                     poseAngles = Some \<lparr> yaw = Fin 0, pitch = 0, roll = 0 \<rparr> \<rparr> \<rparr>"
  by (simp_all add: assessQuality_def Let_def case_prod_beta noFace_def collapsed_eval
        calculateFPS_def newQualityMonitor_def DEFAULT_QUALITY_CONFIG_def estimateBrightness_def
        plainVideo_def darkVideo_def defined_points_def detectGlassesGlare_def js_gt_def)

subsection \<open>C4: confidence of the quality assessment\<close>

text \<open>
  C4. Whenever \<open>assessQuality\<close> returns, the confidence lies in [0, 1] and is the product
  of the multipliers of the flags raised, where the multiplier of FACE_NOT_FOUND is 0. For
  a landmark result without a face it always returns: the confidence is 0, only
  MODEL_WARMING_UP and LOW_FPS can accompany FACE_NOT_FOUND, the details hold the frame rate
  only, and the result does not depend on the video frame, that is, none of the later
  checks has run.
\<close>

theorem assessQuality_confidence:
  "(case fst (assessQuality v lr ts now m) of
      Inl err \<Rightarrow> \<not> noFace lr
    | Inr q \<Rightarrow>
        0 \<le> qualityConfidence q \<and> qualityConfidence q \<le> 1
        \<and> qualityConfidence q = prod_list (map flag_multiplier (flags q))
        \<and> (FACE_NOT_FOUND \<in> set (flags q) \<longleftrightarrow> noFace lr))
   \<and> (noFace lr \<longrightarrow>
        (case fst (assessQuality v lr ts now m) of
           Inl err \<Rightarrow> False
         | Inr q \<Rightarrow>
             qualityConfidence q = 0
             \<and> set (flags q) \<subseteq> {MODEL_WARMING_UP, LOW_FPS, FACE_NOT_FOUND}
             \<and> details q = \<lparr> fps = Some (fst (calculateFPS ts m)), faceCount = None,
                              brightness = None, poseAngles = None \<rparr>)
        \<and> assessQuality v lr ts now m = assessQuality v' lr ts now m)"
proof (cases "noFace lr")
  case True
  have "prod_list (map flag_multiplier (fl @ [FACE_NOT_FOUND])) = 0" for fl
    by (simp add: flag_multiplier_def)
  then show ?thesis
    using True by (auto simp add: assessQuality_noFace [OF True] simp del: map_append prod_list.append)
next
  case False
  from assessQuality_face [OF False, of v ts now m] show ?thesis
    using False by (auto simp add: confidence_is_product_def)
qed

theorem assessQuality_confidence_witness:
  "fst (assessQuality darkVideo None 16 1000 (newQualityMonitor DEFAULT_QUALITY_CONFIG 0)) =
     Inr \<lparr> flags = [MODEL_WARMING_UP, FACE_NOT_FOUND], qualityConfidence = 0,
           details = \<lparr> fps = Some 0, faceCount = None, brightness = None,
                       poseAngles = None \<rparr> \<rparr>
   \<and> assessQuality darkVideo None 16 1000 (newQualityMonitor DEFAULT_QUALITY_CONFIG 0)
       = assessQuality plainVideo None 16 1000 (newQualityMonitor DEFAULT_QUALITY_CONFIG 0)
   \<and> fst (assessQuality plainVideo (Some \<lparr>faceLandmarks = Some [collapsedFace]\<rparr>) 16 1000
        (newQualityMonitor DEFAULT_QUALITY_CONFIG 0)) =
       Inr \<lparr> flags = [MODEL_WARMING_UP, EYE_OCCLUDED], qualityConfidence = 3 / 10,
             details = \<lparr> fps = Some 0, faceCount = None, brightness = Some 128,
                         poseAngles = Some \<lparr> yaw = Fin 0, pitch = 0, roll = 0 \<rparr> \<rparr> \<rparr>
   \<and> prod_list (map flag_multiplier [MODEL_WARMING_UP, EYE_OCCLUDED]) = 3 / 10
   \<and> prod_list (map flag_multiplier [LOW_LIGHT, EYE_OCCLUDED]) = 48 / 100"
proof -
  define m0 where "m0 = newQualityMonitor DEFAULT_QUALITY_CONFIG 0"
  have nf: "noFace None" by (simp add: noFace_def)
  have a: "assessQuality darkVideo None 16 1000 m0 = assessQuality plainVideo None 16 1000 m0"
    using assessQuality_confidence
            [where v = darkVideo and lr = None and ts = 16 and now = 1000 and m = m0
               and v' = plainVideo] nf
    by blast
  have b: "fst (assessQuality darkVideo None 16 1000 m0) =
     Inr \<lparr> flags = [MODEL_WARMING_UP, FACE_NOT_FOUND], qualityConfidence = 0,
           details = \<lparr> fps = Some 0, faceCount = None, brightness = None,
                       poseAngles = None \<rparr> \<rparr>"
    by (simp add: assessQuality_noFace [OF nf] m0_def calculateFPS_def newQualityMonitor_def
          DEFAULT_QUALITY_CONFIG_def Let_def)
  have c: "prod_list (map flag_multiplier [MODEL_WARMING_UP, EYE_OCCLUDED]) = 3 / 10"
    using assessQuality_confidence
            [where v = plainVideo and lr = "Some \<lparr>faceLandmarks = Some [collapsedFace]\<rparr>"
               and ts = 16 and now = 1000 and m = m0]
    by (simp add: assessQuality_collapsed(1) [folded m0_def])
  have d: "prod_list (map flag_multiplier [LOW_LIGHT, EYE_OCCLUDED]) = 48 / 100"
    using assessQuality_confidence
            [where v = darkVideo and lr = "Some \<lparr>faceLandmarks = Some [collapsedFace]\<rparr>"
               and ts = 16 and now = 3000 and m = m0]
    by (simp add: assessQuality_collapsed(2) [folded m0_def])
  from a b c d assessQuality_collapsed(1) show ?thesis unfolding m0_def by blast
qed

section \<open>Verification of the burst check\<close>

lemma burstLoop_effects: "burstLoop t its acc effs = Some (acc', effs') \<Longrightarrow> effs' \<noteq> []"
  by (induction t its acc effs rule: burstLoop.induct) (auto split: if_splits)

subsection \<open>C9: burst check without calibration\<close>

text \<open>
  C9. While the distance estimator is uncalibrated \<open>runDistanceBurst\<close> returns the UNKNOWN
  result with confidence 0, sample count 0 and duration 0, without any effect: it does not
  start the preview, read the clock or sleep, whatever the environment is. (A calibrated
  engine does have effects.)
\<close>

theorem runDistanceBurst_uncalibrated:
  "(\<not> isCalibratedD (distanceEstimator eng) \<longrightarrow>
      runDistanceBurst durationMs env eng =
        (Returned \<lparr> burstBucket = UNKNOWN, estimatedCm = None, burstConfidence = 0,
                     qualityFlags = \<lparr> sumFlags = [], sumConfidence = 0 \<rparr>,
                     sampleCount = 0, burstDuration = 0 \<rparr>, []))
   \<and> (isCalibratedD (distanceEstimator eng) \<longrightarrow> snd (runDistanceBurst durationMs env eng) \<noteq> [])"
proof (cases "isCalibratedD (distanceEstimator eng)")
  case False
  then show ?thesis by (simp add: runDistanceBurst_def unknownBurst_def Let_def)
next
  case True
  define ms where
    "ms = (case durationMs of Some d \<Rightarrow> if d = 0 then 1500 else d | None \<Rightarrow> (1500 :: real))"
  define effs0 where "effs0 = (if \<not> isRunning eng then [StartPreview] else [])"
  show ?thesis
  proof (cases "\<not> isRunning eng \<and> previewFails env")
    case True
    with \<open>isCalibratedD (distanceEstimator eng)\<close> show ?thesis
      by (simp add: runDistanceBurst_def Let_def)
  next
    case False
    show ?thesis
    proof (cases "burstLoop (clockAtStart env + ms) (iterations env) [] (effs0 @ [ReadClock])")
      case None
      with False \<open>isCalibratedD (distanceEstimator eng)\<close> show ?thesis
        by (simp add: runDistanceBurst_def Let_def ms_def effs0_def)
    next
      case (Some res)
      obtain acc effs1 where res: "res = (acc, effs1)" by (cases res)
      have "effs1 \<noteq> []" using Some res burstLoop_effects by blast
      with False \<open>isCalibratedD (distanceEstimator eng)\<close> Some res show ?thesis
        by (simp add: runDistanceBurst_def Let_def ms_def [symmetric] effs0_def [symmetric])
    qed
  qed
qed

theorem runDistanceBurst_uncalibrated_witness:
  "runDistanceBurst None \<lparr>clockAtStart = 0, iterations = [], previewFails = True\<rparr>
     (idleEngine None) =
     (Returned \<lparr> burstBucket = UNKNOWN, estimatedCm = None, burstConfidence = 0,
                  qualityFlags = \<lparr> sumFlags = [], sumConfidence = 0 \<rparr>,
                  sampleCount = 0, burstDuration = 0 \<rparr>, [])
   \<and> runDistanceBurst None \<lparr>clockAtStart = 0, iterations = [], previewFails = True\<rparr>
        (idleEngine (Some 9225)) = (Rejected, [StartPreview])
   \<and> snd (runDistanceBurst (Some 100)
        \<lparr>clockAtStart = 0, iterations = [(50, None), (150, None)], previewFails = False\<rparr>
        (idleEngine (Some 9225)))
       = [StartPreview, ReadClock, ReadClock, Sleep 100, ReadClock, StopPreview]"
proof -
  have unc: "\<not> isCalibratedD (distanceEstimator (idleEngine None))"
    and cal: "isCalibratedD (distanceEstimator (idleEngine (Some 9225)))"
    by (simp_all add: idleEngine_def isCalibratedD_def newDistanceEstimator_def
          loadCalibration_def)
  have a: "runDistanceBurst None \<lparr>clockAtStart = 0, iterations = [], previewFails = True\<rparr>
     (idleEngine None) =
     (Returned \<lparr> burstBucket = UNKNOWN, estimatedCm = None, burstConfidence = 0,
                  qualityFlags = \<lparr> sumFlags = [], sumConfidence = 0 \<rparr>,
                  sampleCount = 0, burstDuration = 0 \<rparr>, [])"
    using runDistanceBurst_uncalibrated [where eng = "idleEngine None"] unc by blast
  have b: "runDistanceBurst None \<lparr>clockAtStart = 0, iterations = [], previewFails = True\<rparr>
        (idleEngine (Some 9225)) = (Rejected, [StartPreview])"
    using cal by (simp add: runDistanceBurst_def Let_def idleEngine_def)
  have c: "snd (runDistanceBurst (Some 100)
        \<lparr>clockAtStart = 0, iterations = [(50, None), (150, None)], previewFails = False\<rparr>
        (idleEngine (Some 9225)))
       = [StartPreview, ReadClock, ReadClock, Sleep 100, ReadClock, StopPreview]"
    using cal runDistanceBurst_uncalibrated [where eng = "idleEngine (Some 9225)"]
    by (simp add: runDistanceBurst_def Let_def idleEngine_def)
  from a b c show ?thesis by blast
qed

end
